theory Spec2Isabelle
  imports Main
begin

section \<open>TaskFlow backend: boards, lists and cards\<close>

text \<open>
  A shallow embedding of the board, list and card controllers
  (\<^verbatim>\<open>board.controller.ts\<close>, \<^verbatim>\<open>list.controller.ts\<close>, \<^verbatim>\<open>card.controller.ts\<close>).
  Every handler reads the store, decides on a response, and sends at most one
  write statement to the store. A handler is modelled as a function from the
  store to its response and the list of write statements the store committed
  for it; the store after the request is obtained by replaying that list.

  The two handlers that address no existing board (\<^verbatim>\<open>getAllBoards\<close>,
  \<^verbatim>\<open>createBoard\<close>), the comment table and the nested relations of the JSON
  payloads are not represented. Identifiers are strings, and a string is a list of
  code units below 256; a stored due date is the instant it denotes.
\<close>

subsection \<open>Rows and tables\<close>

type_synonym ident = string

record board_row =
  b_id :: ident
  b_title :: string
  b_ownerId :: ident

record member_row =
  m_id :: ident
  m_boardId :: ident
  m_userId :: ident
  m_role :: string

record list_row =
  l_id :: ident
  l_title :: string
  l_order :: int
  l_boardId :: ident

record card_row =
  c_id :: ident
  c_title :: string
  c_description :: "string option"
  c_order :: int
  c_listId :: ident
  c_labels :: "string list"
  c_dueDate :: "int option"

record db =
  board_tbl :: "board_row list"
  member_tbl :: "member_row list"
  list_tbl :: "list_row list"
  card_tbl :: "card_row list"

subsection \<open>Reads\<close>

text \<open>\<^verbatim>\<open>prisma.board.findUnique({ where: { id } })\<close> and its siblings.\<close>

definition board_findUnique :: "ident \<Rightarrow> db \<Rightarrow> board_row option" where
  "board_findUnique i d = find (\<lambda>b. b_id b = i) (board_tbl d)"

definition list_findUnique :: "ident \<Rightarrow> db \<Rightarrow> list_row option" where
  "list_findUnique i d = find (\<lambda>l. l_id l = i) (list_tbl d)"

definition card_findUnique :: "ident \<Rightarrow> db \<Rightarrow> card_row option" where
  "card_findUnique i d = find (\<lambda>c. c_id c = i) (card_tbl d)"

text \<open>\<^verbatim>\<open>include: { members: { select: { userId: true } } }\<close>: the member rows of a board.\<close>

definition members_of :: "ident \<Rightarrow> db \<Rightarrow> member_row list" where
  "members_of bid d = filter (\<lambda>m. m_boardId m = bid) (member_tbl d)"

text \<open>\<^verbatim>\<open>include: { board: { include: { members } } }\<close>: the board a list row points to,
  with its member rows.\<close>

definition include_board :: "ident \<Rightarrow> db \<Rightarrow> (board_row \<times> member_row list) option" where
  "include_board bid d =
     (case board_findUnique bid d of
        None \<Rightarrow> None
      | Some b \<Rightarrow> Some (b, members_of bid d))"

text \<open>\<^verbatim>\<open>findFirst({ where, orderBy: { order: 'desc' }, select: { order: true } })\<close>:
  the largest order among the selected rows, or null when there is none.\<close>

fun first_desc :: "int list \<Rightarrow> int option" where
  "first_desc [] = None"
| "first_desc (x # xs) = Some (fold max xs x)"

definition list_orders :: "ident \<Rightarrow> db \<Rightarrow> int list" where
  "list_orders bid d = map l_order (filter (\<lambda>l. l_boardId l = bid) (list_tbl d))"

definition card_orders :: "ident \<Rightarrow> db \<Rightarrow> int list" where
  "card_orders lid d = map c_order (filter (\<lambda>c. c_listId c = lid) (card_tbl d))"

subsection \<open>Numbers and the order column\<close>

text \<open>A JSON number as a handler receives it. \<^verbatim>\<open>typeof x === 'number'\<close> holds of every
  one of them; for the store it matters only whether the number is an integer, and
  which one (a fraction, or a literal too large for a double, is \<open>NonIntegral\<close>).\<close>

datatype number = Integral int | NonIntegral

text \<open>Modelled from the spec: the \<^verbatim>\<open>order\<close> column of lists and cards is an integer
  column. Its declaration is in the Prisma schema, which is not among the sources; it
  is taken to be Prisma's \<^verbatim>\<open>Int\<close>, a signed 32-bit integer. \<open>column_value\<close> is the value
  the store writes for a number, and \<open>None\<close> when the store refuses it.\<close>

definition column_value :: "number \<Rightarrow> int option" where
  "column_value x =
     (case x of
        Integral n \<Rightarrow> if - 2147483648 \<le> n \<and> n \<le> 2147483647 then Some n else None
      | NonIntegral \<Rightarrow> None)"

subsection \<open>Writes\<close>

text \<open>The \<^verbatim>\<open>data\<close> argument of \<^verbatim>\<open>prisma.card.update\<close>: a field that is \<open>None\<close> is
  not part of the update.\<close>

record card_patch =
  p_title :: "string option"
  p_description :: "string option option"
  p_labels :: "string list option"
  p_dueDate :: "int option option"
  p_listId :: "ident option"
  p_order :: "number option"

definition no_patch :: card_patch where
  "no_patch = \<lparr>p_title = None, p_description = None, p_labels = None,
                p_dueDate = None, p_listId = None, p_order = None\<rparr>"

definition apply_patch :: "card_patch \<Rightarrow> card_row \<Rightarrow> card_row" where
  "apply_patch p c =
     c\<lparr>c_title := (case p_title p of None \<Rightarrow> c_title c | Some t \<Rightarrow> t),
       c_description := (case p_description p of None \<Rightarrow> c_description c | Some x \<Rightarrow> x),
       c_labels := (case p_labels p of None \<Rightarrow> c_labels c | Some ls \<Rightarrow> ls),
       c_dueDate := (case p_dueDate p of None \<Rightarrow> c_dueDate c | Some x \<Rightarrow> x),
       c_listId := (case p_listId p of None \<Rightarrow> c_listId c | Some l \<Rightarrow> l),
       c_order := (case p_order p of
                     None \<Rightarrow> c_order c
                   | Some v \<Rightarrow> (case column_value v of None \<Rightarrow> c_order c | Some n \<Rightarrow> n))\<rparr>"

datatype mutation =
    BoardUpdate ident string
  | BoardDelete ident
  | ListCreate list_row
  | ListUpdate ident "string option" "number option"
  | ListDelete ident
  | CardCreate card_row
  | CardUpdate ident card_patch
  | CardDelete ident

text \<open>One write against the store. \<open>None\<close> is the exception Prisma throws: the row to
  update or delete does not exist, the new primary key is taken, a foreign key
  points nowhere, or the order column refuses the number it is given. Deleting a board removes its members, its lists and their cards;
  deleting a list removes its cards (the cascade the controllers rely on).\<close>

fun exec_mutation :: "mutation \<Rightarrow> db \<Rightarrow> db option" where
  "exec_mutation (BoardUpdate i t) d =
     (if board_findUnique i d = None then None
      else Some (d\<lparr>board_tbl :=
             map (\<lambda>b. if b_id b = i then b\<lparr>b_title := t\<rparr> else b) (board_tbl d)\<rparr>))"
| "exec_mutation (BoardDelete i) d =
     (if board_findUnique i d = None then None
      else let gone = map l_id (filter (\<lambda>l. l_boardId l = i) (list_tbl d))
           in Some \<lparr>board_tbl = filter (\<lambda>b. b_id b \<noteq> i) (board_tbl d),
                    member_tbl = filter (\<lambda>m. m_boardId m \<noteq> i) (member_tbl d),
                    list_tbl = filter (\<lambda>l. l_boardId l \<noteq> i) (list_tbl d),
                    card_tbl = filter (\<lambda>c. c_listId c \<notin> set gone) (card_tbl d)\<rparr>)"
| "exec_mutation (ListCreate r) d =
     (if list_findUnique (l_id r) d \<noteq> None \<or> board_findUnique (l_boardId r) d = None
         \<or> column_value (Integral (l_order r)) = None
      then None
      else Some (d\<lparr>list_tbl := list_tbl d @ [r]\<rparr>))"
| "exec_mutation (ListUpdate i t n) d =
     (if list_findUnique i d = None then None
      else if (case n of None \<Rightarrow> False | Some v \<Rightarrow> column_value v = None) then None
      else Some (d\<lparr>list_tbl :=
             map (\<lambda>l. if l_id l = i
                       then l\<lparr>l_title := (case t of None \<Rightarrow> l_title l | Some x \<Rightarrow> x),
                              l_order := (case n of
                                            None \<Rightarrow> l_order l
                                          | Some v \<Rightarrow>
                                              (case column_value v of
                                                 None \<Rightarrow> l_order l
                                               | Some k \<Rightarrow> k))\<rparr>
                       else l) (list_tbl d)\<rparr>))"
| "exec_mutation (ListDelete i) d =
     (if list_findUnique i d = None then None
      else Some (d\<lparr>list_tbl := filter (\<lambda>l. l_id l \<noteq> i) (list_tbl d),
                   card_tbl := filter (\<lambda>c. c_listId c \<noteq> i) (card_tbl d)\<rparr>))"
| "exec_mutation (CardCreate r) d =
     (if card_findUnique (c_id r) d \<noteq> None \<or> list_findUnique (c_listId r) d = None
         \<or> column_value (Integral (c_order r)) = None
      then None
      else Some (d\<lparr>card_tbl := card_tbl d @ [r]\<rparr>))"
| "exec_mutation (CardUpdate i p) d =
     (if card_findUnique i d = None then None
      else if (case p_listId p of None \<Rightarrow> False | Some l \<Rightarrow> list_findUnique l d = None)
      then None
      else if (case p_order p of None \<Rightarrow> False | Some v \<Rightarrow> column_value v = None)
      then None
      else Some (d\<lparr>card_tbl :=
             map (\<lambda>c. if c_id c = i then apply_patch p c else c) (card_tbl d)\<rparr>))"
| "exec_mutation (CardDelete i) d =
     (if card_findUnique i d = None then None
      else Some (d\<lparr>card_tbl := filter (\<lambda>c. c_id c \<noteq> i) (card_tbl d)\<rparr>))"

text \<open>\<^verbatim>\<open>prisma.$transaction([...])\<close>: the writes run in order on a working copy; the
  first one that throws discards the copy.\<close>

fun exec_all :: "mutation list \<Rightarrow> db \<Rightarrow> db option" where
  "exec_all [] d = Some d"
| "exec_all (w # ws) d =
     (case exec_mutation w d of None \<Rightarrow> None | Some d' \<Rightarrow> exec_all ws d')"

datatype stmt = Single mutation | Transaction "mutation list"

fun exec :: "stmt \<Rightarrow> db \<Rightarrow> db option" where
  "exec (Single w) d = exec_mutation w d"
| "exec (Transaction ws) d = exec_all ws d"

text \<open>The store after a committed statement, and the states an observer of the
  store can see while a list of committed statements is replayed.\<close>

definition commit1 :: "stmt \<Rightarrow> db \<Rightarrow> db" where
  "commit1 s d = (case exec s d of None \<Rightarrow> d | Some d' \<Rightarrow> d')"

fun commit :: "stmt list \<Rightarrow> db \<Rightarrow> db" where
  "commit [] d = d"
| "commit (s # ss) d = commit ss (commit1 s d)"


subsection \<open>Requests and responses\<close>

text \<open>A field of a JSON request body: missing, \<^verbatim>\<open>null\<close>, or a value of the type the
  handler expects.\<close>

datatype 'a field = Absent | JNull | Given 'a

datatype body =
    Message string
  | BoardJson board_row
  | CardJson card_row
  | WithBoard string board_row
  | WithList string list_row
  | WithCard string card_row
  | WithDeleted string ident string

datatype response = Response (status: nat) (body: body)

definition unauthorized :: response where
  "unauthorized = Response 401 (Message ''Unauthorized'')"

definition server_error :: response where
  "server_error = Response 500 (Message ''Server error'')"

definition not_member :: response where
  "not_member =
     Response 403 (Message ''Access denied. You are not a member of this board.'')"

text \<open>\<^verbatim>\<open>const userId = req.user?.userId; if (!userId) ...\<close>: a missing user and an
  empty user id are both refused.\<close>

definition authenticated :: "ident option \<Rightarrow> ident option" where
  "authenticated u = (case u of None \<Rightarrow> None | Some s \<Rightarrow> if s = [] then None else Some s)"

text \<open>\<^verbatim>\<open>String.prototype.trim\<close>: the white space and line terminator code units below
  256 are tab, line feed, vertical tab, form feed, carriage return, space and the
  no-break space.\<close>

definition is_space :: "char \<Rightarrow> bool" where
  "is_space c =
     (c \<in> {CHR '' '', CHR 0x09, CHR 0x0A, CHR 0x0B, CHR 0x0C, CHR 0x0D, CHR 0xA0})"

definition trim :: "string \<Rightarrow> string" where
  "trim s = rev (dropWhile is_space (rev (dropWhile is_space s)))"

text \<open>\<^verbatim>\<open>if (!title || title.trim() === '')\<close>: the title that passes, if it does.\<close>

definition valid_title :: "string field \<Rightarrow> string option" where
  "valid_title t =
     (case t of
        Given s \<Rightarrow> if s = [] \<or> trim s = [] then None else Some s
      | _ \<Rightarrow> None)"

text \<open>\<^verbatim>\<open>description?.trim() || null\<close>.\<close>

definition opt_trim :: "string field \<Rightarrow> string option" where
  "opt_trim x = (case x of Given s \<Rightarrow> if trim s = [] then None else Some (trim s) | _ \<Rightarrow> None)"

text \<open>The string of a due date field as \<^verbatim>\<open>new Date\<close> reads it: empty, a date, given by
  the instant it denotes, or a string that is no date.\<close>

datatype date_text = NoText | DateText int | NotADate

text \<open>\<^verbatim>\<open>dueDate ? new Date(dueDate) : null\<close>. The outer \<open>None\<close> is the Invalid Date, which
  the store refuses.\<close>

definition new_date :: "date_text field \<Rightarrow> int option option" where
  "new_date x =
     (case x of
        Given (DateText t) \<Rightarrow> Some (Some t)
      | Given NotADate \<Rightarrow> None
      | _ \<Rightarrow> Some None)"

text \<open>\<^verbatim>\<open>labels || []\<close>.\<close>

definition labels_or_empty :: "string list field \<Rightarrow> string list" where
  "labels_or_empty x = (case x of Given ls \<Rightarrow> ls | _ \<Rightarrow> [])"

record card_body =
  cb_title :: "string field"
  cb_description :: "string field"
  cb_labels :: "string list field"
  cb_dueDate :: "date_text field"

record item =
  it_id :: "ident field"
  it_order :: "number field"

text \<open>\<^verbatim>\<open>if (!list.id || typeof list.order !== 'number')\<close> and
  \<^verbatim>\<open>if (!listId || typeof order !== 'number')\<close>: the pair the two fields stand for,
  if they pass.\<close>

definition id_and_order ::
  "ident field \<Rightarrow> number field \<Rightarrow> (ident \<times> number) option" where
  "id_and_order x y =
     (case x of
        Given i \<Rightarrow>
          (if i = [] then None
           else (case y of Given n \<Rightarrow> Some (i, n) | _ \<Rightarrow> None))
      | _ \<Rightarrow> None)"

definition parse_item :: "item \<Rightarrow> (ident \<times> number) option" where
  "parse_item it = id_and_order (it_id it) (it_order it)"

subsection \<open>The access check\<close>

text \<open>\<^verbatim>\<open>board.ownerId === userId || board.members.some(member => member.userId === userId)\<close>.
  (\<^verbatim>\<open>getBoardById\<close> reads the same user id through the member's \<^verbatim>\<open>user\<close> relation.)\<close>

definition hasAccess :: "ident \<Rightarrow> board_row \<Rightarrow> member_row list \<Rightarrow> bool" where
  "hasAccess userId board ms =
     (b_ownerId board = userId \<or> list_ex (\<lambda>member. m_userId member = userId) ms)"

text \<open>\<^verbatim>\<open>include: { list: { include: { board: { include: { members } } } } }\<close>.\<close>

definition include_list_board :: "ident \<Rightarrow> db \<Rightarrow> (board_row \<times> member_row list) option" where
  "include_list_board lid d =
     (case list_findUnique lid d of
        None \<Rightarrow> None
      | Some l \<Rightarrow> include_board (l_boardId l) d)"

text \<open>A write sent to the store: when the store throws, the handler's \<^verbatim>\<open>catch\<close> answers
  500 and nothing was committed.\<close>

definition send :: "stmt \<Rightarrow> db \<Rightarrow> response \<Rightarrow> response \<times> stmt list" where
  "send s d ok = (case exec s d of None \<Rightarrow> (server_error, []) | Some _ \<Rightarrow> (ok, [s]))"

subsection \<open>Board handlers\<close>

definition getBoardById :: "ident option \<Rightarrow> ident \<Rightarrow> db \<Rightarrow> response \<times> stmt list" where
  "getBoardById u i d =
     (case authenticated u of
        None \<Rightarrow> (unauthorized, [])
      | Some userId \<Rightarrow>
          (case include_board i d of
             None \<Rightarrow> (Response 404 (Message ''Board not found''), [])
           | Some (board, ms) \<Rightarrow>
               if \<not> hasAccess userId board ms then (not_member, [])
               else (Response 200 (BoardJson board), [])))"

definition updateBoard ::
  "ident option \<Rightarrow> ident \<Rightarrow> string field \<Rightarrow> db \<Rightarrow> response \<times> stmt list" where
  "updateBoard u i title d =
     (case authenticated u of
        None \<Rightarrow> (unauthorized, [])
      | Some userId \<Rightarrow>
          (case valid_title title of
             None \<Rightarrow> (Response 400 (Message ''Board title is required''), [])
           | Some t \<Rightarrow>
               (case board_findUnique i d of
                  None \<Rightarrow> (Response 404 (Message ''Board not found''), [])
                | Some board \<Rightarrow>
                    if b_ownerId board \<noteq> userId
                    then (Response 403 (Message
                      ''Access denied. Only the board owner can update the board.''), [])
                    else send (Single (BoardUpdate i (trim t))) d
                           (Response 200 (WithBoard ''Board updated successfully''
                              (board\<lparr>b_title := trim t\<rparr>))))))"

definition deleteBoard :: "ident option \<Rightarrow> ident \<Rightarrow> db \<Rightarrow> response \<times> stmt list" where
  "deleteBoard u i d =
     (case authenticated u of
        None \<Rightarrow> (unauthorized, [])
      | Some userId \<Rightarrow>
          (case board_findUnique i d of
             None \<Rightarrow> (Response 404 (Message ''Board not found''), [])
           | Some board \<Rightarrow>
               if b_ownerId board \<noteq> userId
               then (Response 403 (Message
                 ''Access denied. Only the board owner can delete the board.''), [])
               else send (Single (BoardDelete i)) d
                      (Response 200 (WithDeleted ''Board deleted successfully''
                         i (b_title board)))))"

subsection \<open>List handlers\<close>

text \<open>\<^verbatim>\<open>const order = maxOrderList ? maxOrderList.order + 1 : 0\<close>.\<close>

definition next_order :: "int list \<Rightarrow> int" where
  "next_order os = (case first_desc os of None \<Rightarrow> 0 | Some m \<Rightarrow> m + 1)"

text \<open>The key of a created row is chosen by the store; it is an argument here.\<close>

definition createList ::
  "ident option \<Rightarrow> ident \<Rightarrow> string field \<Rightarrow> ident \<Rightarrow> db \<Rightarrow> response \<times> stmt list" where
  "createList u boardId title newId d =
     (case authenticated u of
        None \<Rightarrow> (unauthorized, [])
      | Some userId \<Rightarrow>
          (case valid_title title of
             None \<Rightarrow> (Response 400 (Message ''List title is required''), [])
           | Some t \<Rightarrow>
               (case include_board boardId d of
                  None \<Rightarrow> (Response 404 (Message ''Board not found''), [])
                | Some (board, ms) \<Rightarrow>
                    if \<not> hasAccess userId board ms then (not_member, [])
                    else
                      let row = \<lparr>l_id = newId, l_title = trim t,
                                 l_order = next_order (list_orders boardId d),
                                 l_boardId = boardId\<rparr>
                      in send (Single (ListCreate row)) d
                           (Response 201 (WithList ''List created successfully'' row)))))"

definition updateList ::
  "ident option \<Rightarrow> ident \<Rightarrow> string field \<Rightarrow> db \<Rightarrow> response \<times> stmt list" where
  "updateList u i title d =
     (case authenticated u of
        None \<Rightarrow> (unauthorized, [])
      | Some userId \<Rightarrow>
          (case valid_title title of
             None \<Rightarrow> (Response 400 (Message ''List title is required''), [])
           | Some t \<Rightarrow>
               (case list_findUnique i d of
                  None \<Rightarrow> (Response 404 (Message ''List not found''), [])
                | Some l \<Rightarrow>
                    (case include_board (l_boardId l) d of
                       None \<Rightarrow> (server_error, [])
                     | Some (board, ms) \<Rightarrow>
                         if \<not> hasAccess userId board ms then (not_member, [])
                         else send (Single (ListUpdate i (Some (trim t)) None)) d
                                (Response 200 (WithList ''List updated successfully''
                                   (l\<lparr>l_title := trim t\<rparr>)))))))"

definition deleteList :: "ident option \<Rightarrow> ident \<Rightarrow> db \<Rightarrow> response \<times> stmt list" where
  "deleteList u i d =
     (case authenticated u of
        None \<Rightarrow> (unauthorized, [])
      | Some userId \<Rightarrow>
          (case list_findUnique i d of
             None \<Rightarrow> (Response 404 (Message ''List not found''), [])
           | Some l \<Rightarrow>
               (case include_board (l_boardId l) d of
                  None \<Rightarrow> (server_error, [])
                | Some (board, ms) \<Rightarrow>
                    if \<not> hasAccess userId board ms then (not_member, [])
                    else send (Single (ListDelete i)) d
                           (Response 200 (WithDeleted ''List deleted successfully''
                              i (l_title l))))))"

text \<open>\<^verbatim>\<open>lists.map(({ id, order }) => prisma.list.update({ where: { id }, data: { order } }))\<close>.\<close>

definition order_updates :: "(ident \<times> number) list \<Rightarrow> mutation list" where
  "order_updates pairs = map (\<lambda>(i, n). ListUpdate i None (Some n)) pairs"

definition reorderLists ::
  "ident option \<Rightarrow> item list field \<Rightarrow> db \<Rightarrow> response \<times> stmt list" where
  "reorderLists u lists_field d =
     (case authenticated u of
        None \<Rightarrow> (unauthorized, [])
      | Some userId \<Rightarrow>
          (case lists_field of
             Given items \<Rightarrow>
               (case those (map parse_item items) of
                  None \<Rightarrow>
                    (if items = [] then Response 400 (Message ''Lists array is required'')
                     else Response 400 (Message ''Each list must have id and order''), [])
                | Some pairs \<Rightarrow>
                    (case pairs of
                       [] \<Rightarrow> (Response 400 (Message ''Lists array is required''), [])
                     | (firstId, _) # _ \<Rightarrow>
                         (case list_findUnique firstId d of
                            None \<Rightarrow> (Response 404 (Message ''List not found''), [])
                          | Some firstList \<Rightarrow>
                              (case include_board (l_boardId firstList) d of
                                 None \<Rightarrow> (server_error, [])
                               | Some (board, ms) \<Rightarrow>
                                   if \<not> hasAccess userId board ms then (not_member, [])
                                   else send (Transaction (order_updates pairs)) d
                                          (Response 200
                                             (Message ''Lists reordered successfully''))))))
           | _ \<Rightarrow> (Response 400 (Message ''Lists array is required''), [])))"

subsection \<open>Card handlers\<close>

definition createCard ::
  "ident option \<Rightarrow> ident \<Rightarrow> card_body \<Rightarrow> ident \<Rightarrow> db \<Rightarrow> response \<times> stmt list" where
  "createCard u listId req newId d =
     (case authenticated u of
        None \<Rightarrow> (unauthorized, [])
      | Some userId \<Rightarrow>
          (case valid_title (cb_title req) of
             None \<Rightarrow> (Response 400 (Message ''Card title is required''), [])
           | Some t \<Rightarrow>
               (case list_findUnique listId d of
                  None \<Rightarrow> (Response 404 (Message ''List not found''), [])
                | Some l \<Rightarrow>
                    (case include_board (l_boardId l) d of
                       None \<Rightarrow> (server_error, [])
                     | Some (board, ms) \<Rightarrow>
                         if \<not> hasAccess userId board ms then (not_member, [])
                         else
                           (case new_date (cb_dueDate req) of
                              None \<Rightarrow> (server_error, [])
                            | Some due \<Rightarrow>
                                let row = \<lparr>c_id = newId, c_title = trim t,
                                           c_description = opt_trim (cb_description req),
                                           c_order = next_order (card_orders listId d),
                                           c_listId = listId,
                                           c_labels = labels_or_empty (cb_labels req),
                                           c_dueDate = due\<rparr>
                                in send (Single (CardCreate row)) d
                                     (Response 201
                                        (WithCard ''Card created successfully'' row)))))))"

definition getCard :: "ident option \<Rightarrow> ident \<Rightarrow> db \<Rightarrow> response \<times> stmt list" where
  "getCard u i d =
     (case authenticated u of
        None \<Rightarrow> (unauthorized, [])
      | Some userId \<Rightarrow>
          (case card_findUnique i d of
             None \<Rightarrow> (Response 404 (Message ''Card not found''), [])
           | Some cardRow \<Rightarrow>
               (case include_list_board (c_listId cardRow) d of
                  None \<Rightarrow> (server_error, [])
                | Some (board, ms) \<Rightarrow>
                    if \<not> hasAccess userId board ms then (not_member, [])
                    else (Response 200 (CardJson cardRow), []))))"

text \<open>The \<^verbatim>\<open>updateData\<close> object of \<^verbatim>\<open>updateCard\<close>. A \<^verbatim>\<open>null\<close> title makes
  \<^verbatim>\<open>title.trim()\<close> throw, and the store refuses \<^verbatim>\<open>null\<close> for the list of labels and
  an Invalid Date for the due date; all three end in the handler's \<^verbatim>\<open>catch\<close>.\<close>

text \<open>The due date an update carries: \<open>Some None\<close> when the field is absent, \<open>None\<close>
  when it is an Invalid Date.\<close>

definition patch_date :: "date_text field \<Rightarrow> int option option option" where
  "patch_date x =
     (case x of
        Absent \<Rightarrow> Some None
      | _ \<Rightarrow> (case new_date x of None \<Rightarrow> None | Some v \<Rightarrow> Some (Some v)))"

definition updateData :: "card_body \<Rightarrow> response + card_patch" where
  "updateData req =
     (let rest = (\<lambda>t.
            case cb_labels req of
              JNull \<Rightarrow> Inl server_error
            | ls \<Rightarrow>
                (case patch_date (cb_dueDate req) of
                   None \<Rightarrow> Inl server_error
                 | Some due \<Rightarrow>
                     Inr \<lparr>p_title = t,
                          p_description =
                            (case cb_description req of
                               Absent \<Rightarrow> None
                             | x \<Rightarrow> Some (opt_trim x)),
                          p_labels = (case ls of Given v \<Rightarrow> Some v | _ \<Rightarrow> None),
                          p_dueDate = due,
                          p_listId = None,
                          p_order = None\<rparr>))
      in case cb_title req of
           Absent \<Rightarrow> rest None
         | JNull \<Rightarrow> Inl server_error
         | Given t \<Rightarrow>
             if trim t = []
             then Inl (Response 400 (Message ''Card title cannot be empty''))
             else rest (Some (trim t)))"

definition updateCard ::
  "ident option \<Rightarrow> ident \<Rightarrow> card_body \<Rightarrow> db \<Rightarrow> response \<times> stmt list" where
  "updateCard u i req d =
     (case authenticated u of
        None \<Rightarrow> (unauthorized, [])
      | Some userId \<Rightarrow>
          (case card_findUnique i d of
             None \<Rightarrow> (Response 404 (Message ''Card not found''), [])
           | Some cardRow \<Rightarrow>
               (case include_list_board (c_listId cardRow) d of
                  None \<Rightarrow> (server_error, [])
                | Some (board, ms) \<Rightarrow>
                    if \<not> hasAccess userId board ms then (not_member, [])
                    else
                      (case updateData req of
                         Inl r \<Rightarrow> (r, [])
                       | Inr p \<Rightarrow>
                           send (Single (CardUpdate i p)) d
                             (Response 200 (WithCard ''Card updated successfully''
                                (apply_patch p cardRow)))))))"

definition deleteCard :: "ident option \<Rightarrow> ident \<Rightarrow> db \<Rightarrow> response \<times> stmt list" where
  "deleteCard u i d =
     (case authenticated u of
        None \<Rightarrow> (unauthorized, [])
      | Some userId \<Rightarrow>
          (case card_findUnique i d of
             None \<Rightarrow> (Response 404 (Message ''Card not found''), [])
           | Some cardRow \<Rightarrow>
               (case include_list_board (c_listId cardRow) d of
                  None \<Rightarrow> (server_error, [])
                | Some (board, ms) \<Rightarrow>
                    if \<not> hasAccess userId board ms then (not_member, [])
                    else send (Single (CardDelete i)) d
                           (Response 200 (WithDeleted ''Card deleted successfully''
                              i (c_title cardRow))))))"

definition move_patch :: "ident \<Rightarrow> number \<Rightarrow> card_patch" where
  "move_patch listId order = no_patch\<lparr>p_listId := Some listId, p_order := Some order\<rparr>"

definition moveCard ::
  "ident option \<Rightarrow> ident \<Rightarrow> ident field \<Rightarrow> number field \<Rightarrow> db
     \<Rightarrow> response \<times> stmt list" where
  "moveCard u i listId_field order_field d =
     (case authenticated u of
        None \<Rightarrow> (unauthorized, [])
      | Some userId \<Rightarrow>
          (case id_and_order listId_field order_field of
             None \<Rightarrow> (Response 400 (Message ''listId and order are required''), [])
           | Some (listId, order) \<Rightarrow>
               (case card_findUnique i d of
                  None \<Rightarrow> (Response 404 (Message ''Card not found''), [])
                | Some cardRow \<Rightarrow>
                    (case include_list_board (c_listId cardRow) d of
                       None \<Rightarrow> (server_error, [])
                     | Some (board, ms) \<Rightarrow>
                         if \<not> hasAccess userId board ms then (not_member, [])
                         else
                           (case list_findUnique listId d of
                              None \<Rightarrow> (Response 404 (Message ''Target list not found''), [])
                            | Some targetList \<Rightarrow>
                                (case include_board (l_boardId targetList) d of
                                   None \<Rightarrow> (server_error, [])
                                 | Some (tboard, tms) \<Rightarrow>
                                     if \<not> hasAccess userId tboard tms
                                     then (Response 403 (Message
                                       ''Access denied. You are not a member of the target board.''), [])
                                     else send (Single (CardUpdate i (move_patch listId order))) d
                                            (Response 200 (WithCard ''Card moved successfully''
                                               (apply_patch (move_patch listId order) cardRow)))))))))"

text \<open>The store after a request.\<close>

definition after :: "response \<times> stmt list \<Rightarrow> db \<Rightarrow> db" where
  "after out d = commit (snd out) d"

subsection \<open>Handler calls\<close>

text \<open>A call of one of the twelve handlers that name an existing board, list or card,
  with the arguments the handler reads from the route and the body. The Express
  routers that dispatch to the handlers are not modelled.\<close>

datatype request =
    GetBoardById ident
  | UpdateBoard ident "string field"
  | DeleteBoard ident
  | CreateList ident "string field" ident
  | UpdateList ident "string field"
  | DeleteList ident
  | ReorderLists "item list field"
  | CreateCard ident card_body ident
  | GetCard ident
  | UpdateCard ident card_body
  | DeleteCard ident
  | MoveCard ident "ident field" "number field"

fun handle :: "ident option \<Rightarrow> request \<Rightarrow> db \<Rightarrow> response \<times> stmt list" where
  "handle u (GetBoardById i) d = getBoardById u i d"
| "handle u (UpdateBoard i t) d = updateBoard u i t d"
| "handle u (DeleteBoard i) d = deleteBoard u i d"
| "handle u (CreateList b t newId) d = createList u b t newId d"
| "handle u (UpdateList i t) d = updateList u i t d"
| "handle u (DeleteList i) d = deleteList u i d"
| "handle u (ReorderLists ls) d = reorderLists u ls d"
| "handle u (CreateCard l req newId) d = createCard u l req newId d"
| "handle u (GetCard i) d = getCard u i d"
| "handle u (UpdateCard i req) d = updateCard u i req d"
| "handle u (DeleteCard i) d = deleteCard u i d"
| "handle u (MoveCard i l n) d = moveCard u i l n d"

subsection \<open>Vocabulary of the properties\<close>

text \<open>The payload checks a handler makes before it looks its target up.\<close>

fun passes_validation :: "request \<Rightarrow> bool" where
  "passes_validation (UpdateBoard i t) = (valid_title t \<noteq> None)"
| "passes_validation (CreateList b t newId) = (valid_title t \<noteq> None)"
| "passes_validation (UpdateList i t) = (valid_title t \<noteq> None)"
| "passes_validation (ReorderLists ls) =
     (case ls of
        Given items \<Rightarrow> items \<noteq> [] \<and> those (map parse_item items) \<noteq> None
      | _ \<Rightarrow> False)"
| "passes_validation (CreateCard l req newId) = (valid_title (cb_title req) \<noteq> None)"
| "passes_validation (MoveCard i l n) = (id_and_order l n \<noteq> None)"
| "passes_validation _ = True"

text \<open>The id a request names first: the route parameter, and for a reorder the id of
  the first entry of the payload.\<close>

datatype target = BoardId ident | ListId ident | CardId ident

fun primary_target :: "request \<Rightarrow> target option" where
  "primary_target (GetBoardById i) = Some (BoardId i)"
| "primary_target (UpdateBoard i t) = Some (BoardId i)"
| "primary_target (DeleteBoard i) = Some (BoardId i)"
| "primary_target (CreateList b t newId) = Some (BoardId b)"
| "primary_target (UpdateList i t) = Some (ListId i)"
| "primary_target (DeleteList i) = Some (ListId i)"
| "primary_target (ReorderLists ls) =
     (case ls of
        Given (it # _) \<Rightarrow> (case parse_item it of None \<Rightarrow> None | Some (i, _) \<Rightarrow> Some (ListId i))
      | _ \<Rightarrow> None)"
| "primary_target (CreateCard l req newId) = Some (ListId l)"
| "primary_target (GetCard i) = Some (CardId i)"
| "primary_target (UpdateCard i req) = Some (CardId i)"
| "primary_target (DeleteCard i) = Some (CardId i)"
| "primary_target (MoveCard i l n) = Some (CardId i)"

fun resolves :: "target \<Rightarrow> db \<Rightarrow> bool" where
  "resolves (BoardId i) d = (board_findUnique i d \<noteq> None)"
| "resolves (ListId i) d = (list_findUnique i d \<noteq> None)"
| "resolves (CardId i) d = (card_findUnique i d \<noteq> None)"

text \<open>The board that owns a target, with its member rows.\<close>

fun owning_board :: "target \<Rightarrow> db \<Rightarrow> (board_row \<times> member_row list) option" where
  "owning_board (BoardId i) d = include_board i d"
| "owning_board (ListId i) d = include_list_board i d"
| "owning_board (CardId i) d =
     (case card_findUnique i d of
        None \<Rightarrow> None
      | Some c \<Rightarrow> include_list_board (c_listId c) d)"

definition scope_board :: "request \<Rightarrow> db \<Rightarrow> (board_row \<times> member_row list) option" where
  "scope_board r d =
     (case primary_target r of None \<Rightarrow> None | Some t \<Rightarrow> owning_board t d)"

text \<open>The board of the list a card is moved to.\<close>

fun destination_board :: "request \<Rightarrow> db \<Rightarrow> (board_row \<times> member_row list) option" where
  "destination_board (MoveCard i l n) d =
     (case id_and_order l n of
        None \<Rightarrow> None
      | Some (listId, _) \<Rightarrow> include_list_board listId d)"
| "destination_board _ d = None"

fun owner_only :: "request \<Rightarrow> bool" where
  "owner_only (UpdateBoard i t) = True"
| "owner_only (DeleteBoard i) = True"
| "owner_only _ = False"

text \<open>The answer to a request whose first-named target does not exist.\<close>

fun not_found_reply :: "request \<Rightarrow> response" where
  "not_found_reply (GetBoardById i) = Response 404 (Message ''Board not found'')"
| "not_found_reply (UpdateBoard i t) = Response 404 (Message ''Board not found'')"
| "not_found_reply (DeleteBoard i) = Response 404 (Message ''Board not found'')"
| "not_found_reply (CreateList b t newId) = Response 404 (Message ''Board not found'')"
| "not_found_reply (UpdateList i t) = Response 404 (Message ''List not found'')"
| "not_found_reply (DeleteList i) = Response 404 (Message ''List not found'')"
| "not_found_reply (ReorderLists ls) = Response 404 (Message ''List not found'')"
| "not_found_reply (CreateCard l req newId) = Response 404 (Message ''List not found'')"
| "not_found_reply (GetCard i) = Response 404 (Message ''Card not found'')"
| "not_found_reply (UpdateCard i req) = Response 404 (Message ''Card not found'')"
| "not_found_reply (DeleteCard i) = Response 404 (Message ''Card not found'')"
| "not_found_reply (MoveCard i l n) = Response 404 (Message ''Card not found'')"


text \<open>The order a list row has once the pairs of a reorder payload have been applied
  to it one after the other, each with the value the store writes for it.\<close>

definition reordered :: "(ident \<times> number) list \<Rightarrow> list_row \<Rightarrow> list_row" where
  "reordered pairs l =
     l\<lparr>l_order :=
         fold (\<lambda>(i, v) acc.
                 if l_id l = i
                 then (case column_value v of None \<Rightarrow> acc | Some k \<Rightarrow> k)
                 else acc) pairs (l_order l)\<rparr>"

subsection \<open>A small store\<close>

text \<open>Board \<open>b1\<close> is owned by \<open>u1\<close> and shared with \<open>u2\<close>; board \<open>b2\<close> belongs to
  \<open>u3\<close> alone. In \<open>bare\<close> board \<open>b1\<close> has no list.\<close>

definition board1 :: board_row where
  "board1 = \<lparr>b_id = ''b1'', b_title = ''Sprint'', b_ownerId = ''u1''\<rparr>"

definition board2 :: board_row where
  "board2 = \<lparr>b_id = ''b2'', b_title = ''Private'', b_ownerId = ''u3''\<rparr>"

definition todo :: list_row where
  "todo = \<lparr>l_id = ''l1'', l_title = ''Todo'', l_order = 0, l_boardId = ''b1''\<rparr>"

definition doing :: list_row where
  "doing = \<lparr>l_id = ''l2'', l_title = ''Doing'', l_order = 1, l_boardId = ''b1''\<rparr>"

definition secret :: list_row where
  "secret = \<lparr>l_id = ''l3'', l_title = ''Plans'', l_order = 7, l_boardId = ''b2''\<rparr>"

definition fix_bug :: card_row where
  "fix_bug = \<lparr>c_id = ''c1'', c_title = ''Fix bug'', c_description = None, c_order = 0,
               c_listId = ''l1'', c_labels = [], c_dueDate = None\<rparr>"

definition buy_land :: card_row where
  "buy_land = \<lparr>c_id = ''c2'', c_title = ''Buy land'', c_description = None, c_order = 4,
                c_listId = ''l3'', c_labels = [], c_dueDate = None\<rparr>"

definition store0 :: db where
  "store0 =
     \<lparr>board_tbl = [board1, board2],
      member_tbl =
        [\<lparr>m_id = ''m1'', m_boardId = ''b1'', m_userId = ''u1'', m_role = ''owner''\<rparr>,
         \<lparr>m_id = ''m2'', m_boardId = ''b1'', m_userId = ''u2'', m_role = ''member''\<rparr>,
         \<lparr>m_id = ''m3'', m_boardId = ''b2'', m_userId = ''u3'', m_role = ''owner''\<rparr>],
      list_tbl = [todo, doing, secret],
      card_tbl = [fix_bug, buy_land]\<rparr>"

definition bare :: db where
  "bare = store0\<lparr>list_tbl := [secret], card_tbl := [buy_land]\<rparr>"

definition titled :: "string \<Rightarrow> card_body" where
  "titled t = \<lparr>cb_title = Given t, cb_description = Absent,
                cb_labels = Absent, cb_dueDate = Absent\<rparr>"

definition entry :: "ident \<Rightarrow> int \<Rightarrow> item" where
  "entry i n = \<lparr>it_id = Given i, it_order = Given (Integral n)\<rparr>"

definition too_big :: item where
  "too_big = \<lparr>it_id = Given ''l2'', it_order = Given (Integral 2147483648)\<rparr>"

definition empty_body :: card_body where
  "empty_body = \<lparr>cb_title = Absent, cb_description = Absent,
                  cb_labels = Absent, cb_dueDate = Absent\<rparr>"

section \<open>Properties\<close>

subsection \<open>Auxiliary facts\<close>

lemma next_order_eq: "next_order os = (if os = [] then 0 else Max (set os) + 1)"
  by (cases os) (simp_all add: next_order_def Max.set_eq_fold [symmetric])

lemma status_server_error [simp]: "status server_error = 500"
  by (simp add: server_error_def)

lemma status_unauthorized [simp]: "status unauthorized = 401"
  by (simp add: unauthorized_def)

lemma status_not_member [simp]: "status not_member = 403"
  by (simp add: not_member_def)

subsection \<open>The order of a new list or card\<close>

lemma list_orders_set:
  "set (list_orders b d) = l_order ` {l \<in> set (list_tbl d). l_boardId l = b}"
  by (auto simp: list_orders_def)

lemma list_orders_Nil:
  "list_orders b d = [] \<longleftrightarrow> \<not> (\<exists>l\<in>set (list_tbl d). l_boardId l = b)"
  by (auto simp: list_orders_def filter_empty_conv)

lemma card_orders_set:
  "set (card_orders l d) = c_order ` {c \<in> set (card_tbl d). c_listId c = l}"
  by (auto simp: card_orders_def)

lemma card_orders_Nil:
  "card_orders l d = [] \<longleftrightarrow> \<not> (\<exists>c\<in>set (card_tbl d). c_listId c = l)"
  by (auto simp: card_orders_def filter_empty_conv)

lemma createList_created:
  assumes "status (fst (createList u b t newId d)) = 201"
  shows "\<exists>row. createList u b t newId d =
            (Response 201 (WithList ''List created successfully'' row),
             [Single (ListCreate row)])
          \<and> l_id row = newId \<and> l_boardId row = b
          \<and> l_order row = next_order (list_orders b d)
          \<and> list_tbl (after (createList u b t newId d) d) = list_tbl d @ [row]"
  using assms
  by (auto simp: createList_def send_def after_def commit1_def Let_def
           split: option.splits if_splits)

lemma createCard_created:
  assumes "status (fst (createCard u l req newId d)) = 201"
  shows "\<exists>row. createCard u l req newId d =
            (Response 201 (WithCard ''Card created successfully'' row),
             [Single (CardCreate row)])
          \<and> c_id row = newId \<and> c_listId row = l
          \<and> c_order row = next_order (card_orders l d)
          \<and> card_tbl (after (createCard u l req newId d) d) = card_tbl d @ [row]"
  using assms
  by (auto simp: createCard_def send_def after_def commit1_def Let_def
           split: option.splits if_splits)

text \<open>
  Claim C7. Whenever \<^verbatim>\<open>createList\<close> answers 201, the row it created and stored has
  order 0 when no list row of the store belongs to the board, and otherwise the
  largest order among the list rows of that board plus one. Whenever \<^verbatim>\<open>createCard\<close>
  answers 201, the same holds for the new card among the card rows of its list.
\<close>

theorem C7_order_of_created:
  "(status (fst (createList u b t newId d)) = 201 \<longrightarrow>
      (\<exists>row. createList u b t newId d =
          (Response 201 (WithList ''List created successfully'' row),
           [Single (ListCreate row)])
        \<and> l_id row = newId \<and> l_boardId row = b
        \<and> (if \<exists>x\<in>set (list_tbl d). l_boardId x = b
            then l_order row = Max (l_order ` {x \<in> set (list_tbl d). l_boardId x = b}) + 1
            else l_order row = 0)
        \<and> list_tbl (after (createList u b t newId d) d) = list_tbl d @ [row]))
   \<and> (status (fst (createCard u l req newId' d)) = 201 \<longrightarrow>
      (\<exists>row. createCard u l req newId' d =
          (Response 201 (WithCard ''Card created successfully'' row),
           [Single (CardCreate row)])
        \<and> c_id row = newId' \<and> c_listId row = l
        \<and> (if \<exists>x\<in>set (card_tbl d). c_listId x = l
            then c_order row = Max (c_order ` {x \<in> set (card_tbl d). c_listId x = l}) + 1
            else c_order row = 0)
        \<and> card_tbl (after (createCard u l req newId' d) d) = card_tbl d @ [row]))"
proof (intro conjI impI)
  assume "status (fst (createList u b t newId d)) = 201"
  from createList_created [OF this] obtain row where
    r: "createList u b t newId d =
          (Response 201 (WithList ''List created successfully'' row), [Single (ListCreate row)])"
    "l_id row = newId" "l_boardId row = b"
    "list_tbl (after (createList u b t newId d) d) = list_tbl d @ [row]"
    and o: "l_order row = next_order (list_orders b d)"
    by blast
  have "if \<exists>x\<in>set (list_tbl d). l_boardId x = b
        then l_order row = Max (l_order ` {x \<in> set (list_tbl d). l_boardId x = b}) + 1
        else l_order row = 0"
    unfolding o next_order_eq list_orders_Nil list_orders_set by simp
  with r show "\<exists>row. createList u b t newId d =
          (Response 201 (WithList ''List created successfully'' row),
           [Single (ListCreate row)])
        \<and> l_id row = newId \<and> l_boardId row = b
        \<and> (if \<exists>x\<in>set (list_tbl d). l_boardId x = b
            then l_order row = Max (l_order ` {x \<in> set (list_tbl d). l_boardId x = b}) + 1
            else l_order row = 0)
        \<and> list_tbl (after (createList u b t newId d) d) = list_tbl d @ [row]"
    by blast
next
  assume "status (fst (createCard u l req newId' d)) = 201"
  from createCard_created [OF this] obtain row where
    r: "createCard u l req newId' d =
          (Response 201 (WithCard ''Card created successfully'' row), [Single (CardCreate row)])"
    "c_id row = newId'" "c_listId row = l"
    "card_tbl (after (createCard u l req newId' d) d) = card_tbl d @ [row]"
    and o: "c_order row = next_order (card_orders l d)"
    by blast
  have "if \<exists>x\<in>set (card_tbl d). c_listId x = l
        then c_order row = Max (c_order ` {x \<in> set (card_tbl d). c_listId x = l}) + 1
        else c_order row = 0"
    unfolding o next_order_eq card_orders_Nil card_orders_set by simp
  with r show "\<exists>row. createCard u l req newId' d =
          (Response 201 (WithCard ''Card created successfully'' row),
           [Single (CardCreate row)])
        \<and> c_id row = newId' \<and> c_listId row = l
        \<and> (if \<exists>x\<in>set (card_tbl d). c_listId x = l
            then c_order row = Max (c_order ` {x \<in> set (card_tbl d). c_listId x = l}) + 1
            else c_order row = 0)
        \<and> card_tbl (after (createCard u l req newId' d) d) = card_tbl d @ [row]"
    by blast
qed

lemma has_list_iff: "(\<exists>x\<in>set (list_tbl d). l_boardId x = b) \<longleftrightarrow> list_orders b d \<noteq> []"
  by (simp add: list_orders_Nil)

lemma has_card_iff: "(\<exists>x\<in>set (card_tbl d). c_listId x = l) \<longleftrightarrow> card_orders l d \<noteq> []"
  by (simp add: card_orders_Nil)

theorem C7_order_of_created_witness:
  "status (fst (createList (Some ''u2'') ''b1'' (Given ''Done'') ''l9'' store0)) = 201
   \<and> (\<exists>row. snd (createList (Some ''u2'') ''b1'' (Given ''Done'') ''l9'' store0) =
               [Single (ListCreate row)] \<and> l_order row = 2)
   \<and> status (fst (createList (Some ''u2'') ''b1'' (Given ''Done'') ''l9'' bare)) = 201
   \<and> (\<exists>row. snd (createList (Some ''u2'') ''b1'' (Given ''Done'') ''l9'' bare) =
               [Single (ListCreate row)] \<and> l_order row = 0)
   \<and> status (fst (createCard (Some ''u2'') ''l1'' (titled ''Ship'') ''c9'' store0)) = 201
   \<and> (\<exists>row. snd (createCard (Some ''u2'') ''l1'' (titled ''Ship'') ''c9'' store0) =
               [Single (CardCreate row)] \<and> c_order row = 1)
   \<and> status (fst (createCard (Some ''u2'') ''l2'' (titled ''Ship'') ''c9'' store0)) = 201
   \<and> (\<exists>row. snd (createCard (Some ''u2'') ''l2'' (titled ''Ship'') ''c9'' store0) =
               [Single (CardCreate row)] \<and> c_order row = 0)"
proof -
  have h1: "status (fst (createList (Some ''u2'') ''b1'' (Given ''Done'') ''l9'' store0)) = 201"
    by code_simp
  have h2: "status (fst (createList (Some ''u2'') ''b1'' (Given ''Done'') ''l9'' bare)) = 201"
    by code_simp
  have h3: "status (fst (createCard (Some ''u2'') ''l1'' (titled ''Ship'') ''c9'' store0)) = 201"
    by code_simp
  have h4: "status (fst (createCard (Some ''u2'') ''l2'' (titled ''Ship'') ''c9'' store0)) = 201"
    by code_simp
  have o1: "list_orders ''b1'' store0 = [0, 1]" by code_simp
  have o2: "list_orders ''b1'' bare = []" by code_simp
  have o3: "card_orders ''l1'' store0 = [0]" by code_simp
  have o4: "card_orders ''l2'' store0 = []" by code_simp
  note T = C7_order_of_created [unfolded has_list_iff has_card_iff
             list_orders_set [symmetric] card_orders_set [symmetric]]
  from T [of "Some ''u2''" "''b1''" "Given ''Done''" "''l9''" store0, THEN conjunct1] h1
  have a: "\<exists>row. snd (createList (Some ''u2'') ''b1'' (Given ''Done'') ''l9'' store0) =
               [Single (ListCreate row)] \<and> l_order row = 2"
    by (auto simp: o1)
  from T [of "Some ''u2''" "''b1''" "Given ''Done''" "''l9''" bare, THEN conjunct1] h2
  have b: "\<exists>row. snd (createList (Some ''u2'') ''b1'' (Given ''Done'') ''l9'' bare) =
               [Single (ListCreate row)] \<and> l_order row = 0"
    by (auto simp: o2)
  from T [of "Some ''u2''" _ _ _ store0 "''l1''" "titled ''Ship''" "''c9''", THEN conjunct2] h3
  have c: "\<exists>row. snd (createCard (Some ''u2'') ''l1'' (titled ''Ship'') ''c9'' store0) =
               [Single (CardCreate row)] \<and> c_order row = 1"
    by (auto simp: o3)
  from T [of "Some ''u2''" _ _ _ store0 "''l2''" "titled ''Ship''" "''c9''", THEN conjunct2] h4
  have e: "\<exists>row. snd (createCard (Some ''u2'') ''l2'' (titled ''Ship'') ''c9'' store0) =
               [Single (CardCreate row)] \<and> c_order row = 0"
    by (auto simp: o4)
  from a b c e h1 h2 h3 h4 show ?thesis by blast
qed

subsection \<open>Reordering lists\<close>

lemma find_None_image: "find (\<lambda>x. f x = i) xs = None \<longleftrightarrow> i \<notin> f ` set xs"
  by (auto simp: find_None_iff)

lemma list_find_None: "list_findUnique i d = None \<longleftrightarrow> i \<notin> l_id ` set (list_tbl d)"
  by (simp add: list_findUnique_def find_None_image)

lemma reordered_Nil [simp]: "reordered [] l = l"
  by (simp add: reordered_def)

lemma map_reordered_Nil [simp]: "map (reordered []) xs = xs"
  by (induction xs) simp_all

lemma reordered_Cons:
  "column_value v = Some k \<Longrightarrow>
   reordered ((i, v) # ps) l = reordered ps (if l_id l = i then l\<lparr>l_order := k\<rparr> else l)"
  by (simp add: reordered_def)

lemma reordered_id [simp]: "l_id (reordered ps l) = l_id l"
  by (simp add: reordered_def)

lemma reordered_title [simp]: "l_title (reordered ps l) = l_title l"
  by (simp add: reordered_def)

lemma reordered_boardId [simp]: "l_boardId (reordered ps l) = l_boardId l"
  by (simp add: reordered_def)

lemma reordered_unnamed: "l_id l \<notin> fst ` set ps \<Longrightarrow> reordered ps l = l"
proof (induction ps)
  case Nil
  then show ?case by simp
next
  case (Cons p ps)
  then show ?case by (cases p) (simp add: reordered_def)
qed

lemma reordered_named:
  "distinct (map fst ps) \<Longrightarrow> (i, v) \<in> set ps \<Longrightarrow> column_value v = Some k \<Longrightarrow>
   \<forall>p\<in>set ps. column_value (snd p) \<noteq> None \<Longrightarrow> l_id l = i \<Longrightarrow>
   l_order (reordered ps l) = k"
proof (induction ps arbitrary: l)
  case Nil
  then show ?case by simp
next
  case (Cons p ps)
  obtain j w where p: "p = (j, w)" by (cases p)
  from Cons.prems(4) p obtain m where m: "column_value w = Some m" by auto
  show ?case
  proof (cases "(i, v) = p")
    case True
    with Cons.prems p m have km: "m = k" by simp
    from True Cons.prems p have "l_id (l\<lparr>l_order := k\<rparr>) \<notin> fst ` set ps" by auto
    from reordered_unnamed [OF this] True p Cons.prems m km show ?thesis
      by (simp add: reordered_Cons)
  next
    case False
    with Cons.prems p have "(i, v) \<in> set ps" "j \<noteq> i" "distinct (map fst ps)"
      "\<forall>p\<in>set ps. column_value (snd p) \<noteq> None"
      by (auto simp: image_iff)
    with Cons.IH [of l] Cons.prems p m show ?thesis
      by (simp add: reordered_Cons)
  qed
qed

lemma map_l_id_set_order:
  "map l_id (map (\<lambda>l. if l_id l = i then l\<lparr>l_order := k\<rparr> else l) xs) = map l_id xs"
  by (induction xs) simp_all

lemma exec_order_update:
  "exec_mutation (ListUpdate i None (Some v)) d =
     (if i \<in> l_id ` set (list_tbl d)
      then (case column_value v of
              None \<Rightarrow> None
            | Some k \<Rightarrow>
                Some (d\<lparr>list_tbl :=
                  map (\<lambda>l. if l_id l = i then l\<lparr>l_order := k\<rparr> else l) (list_tbl d)\<rparr>))
      else None)"
  by (auto simp: list_find_None split: option.splits)

text \<open>The updates of a payload can all be carried out: every id names a list row
  and the order column takes every number.\<close>

lemma exec_all_order_updates:
  "exec_all (order_updates ps) d =
     (if fst ` set ps \<subseteq> l_id ` set (list_tbl d) \<and> (\<forall>p\<in>set ps. column_value (snd p) \<noteq> None)
      then Some (d\<lparr>list_tbl := map (reordered ps) (list_tbl d)\<rparr>)
      else None)"
proof (induction ps arbitrary: d)
  case Nil
  then show ?case by (simp add: order_updates_def)
next
  case (Cons p ps)
  obtain i v where p: "p = (i, v)" by (cases p)
  have step: "order_updates (p # ps) = ListUpdate i None (Some v) # order_updates ps"
    by (simp add: order_updates_def p)
  show ?case
  proof (cases "i \<in> l_id ` set (list_tbl d)")
    case False
    then show ?thesis
      unfolding step by (simp add: exec_order_update p del: exec_mutation.simps)
  next
    case True
    show ?thesis
    proof (cases "column_value v")
      case None
      then show ?thesis
        unfolding step using True by (simp add: exec_order_update p del: exec_mutation.simps)
    next
      case (Some k)
      let ?d' = "d\<lparr>list_tbl :=
                   map (\<lambda>l. if l_id l = i then l\<lparr>l_order := k\<rparr> else l) (list_tbl d)\<rparr>"
      have "map l_id (list_tbl ?d') = map l_id (list_tbl d)"
        by (simp add: map_l_id_set_order)
      then have ids: "l_id ` set (list_tbl ?d') = l_id ` set (list_tbl d)"
        by (metis set_map)
      have "exec_all (order_updates (p # ps)) d = exec_all (order_updates ps) ?d'"
        unfolding step using True Some
        by (simp add: exec_order_update del: exec_mutation.simps)
      also have "\<dots> = (if fst ` set ps \<subseteq> l_id ` set (list_tbl d)
                           \<and> (\<forall>p\<in>set ps. column_value (snd p) \<noteq> None)
                        then Some (?d'\<lparr>list_tbl := map (reordered ps) (list_tbl ?d')\<rparr>)
                        else None)"
        unfolding Cons.IH [of ?d'] ids by simp
      finally show ?thesis
        using True Some by (simp add: p reordered_Cons o_def)
    qed
  qed
qed

lemma all_found_iff:
  "fst ` set ps \<subseteq> l_id ` set (list_tbl d) \<and> (\<forall>p\<in>set ps. column_value (snd p) \<noteq> None) \<longleftrightarrow>
   (\<forall>p\<in>set ps. list_findUnique (fst p) d \<noteq> None \<and> column_value (snd p) \<noteq> None)"
  by (auto simp: list_find_None)

lemma reorderLists_decision:
  assumes "authenticated u = Some U"
    and "those (map parse_item items) = Some ((i0, n0) # rest)"
  shows "reorderLists u (Given items) d =
     (case list_findUnique i0 d of
        None \<Rightarrow> (Response 404 (Message ''List not found''), [])
      | Some l \<Rightarrow>
          (case include_board (l_boardId l) d of
             None \<Rightarrow> (server_error, [])
           | Some (B, ms) \<Rightarrow>
               if \<not> hasAccess U B ms then (not_member, [])
               else if \<forall>p\<in>set ((i0, n0) # rest).
                         list_findUnique (fst p) d \<noteq> None \<and> column_value (snd p) \<noteq> None
               then (Response 200 (Message ''Lists reordered successfully''),
                     [Transaction (order_updates ((i0, n0) # rest))])
               else (server_error, [])))"
proof (cases "list_findUnique i0 d")
  case None
  with assms show ?thesis
    by (simp add: reorderLists_def)
next
  case (Some l)
  have ex: "exec (Transaction (order_updates ((i0, n0) # rest))) d =
      (if \<forall>p\<in>set ((i0, n0) # rest).
            list_findUnique (fst p) d \<noteq> None \<and> column_value (snd p) \<noteq> None
       then Some (d\<lparr>list_tbl := map (reordered ((i0, n0) # rest)) (list_tbl d)\<rparr>) else None)"
    unfolding exec.simps exec_all_order_updates all_found_iff ..
  from assms Some show ?thesis
    by (simp add: reorderLists_def send_def ex split: option.splits prod.splits
             del: exec.simps)
qed

lemma after_nothing [simp]: "after (r, []) d = d"
  by (simp add: after_def)

lemma after_transaction:
  "exec_all ws d = Some d' \<Longrightarrow> after (r, [Transaction ws]) d = d'"
  by (simp add: after_def commit1_def)

lemma reorderLists_reached:
  assumes "status (fst (reorderLists u payload d)) = 200"
  shows "\<exists>U items p rest. authenticated u = Some U \<and> payload = Given items
           \<and> those (map parse_item items) = Some (p # rest)"
  using assms
  by (auto simp add: reorderLists_def
           split: option.splits field.splits list.splits if_splits)

lemma reorderLists_ok:
  assumes "status (fst (reorderLists u payload d)) = 200"
  shows "\<exists>items pairs. payload = Given items \<and> those (map parse_item items) = Some pairs
           \<and> reorderLists u payload d =
               (Response 200 (Message ''Lists reordered successfully''),
                [Transaction (order_updates pairs)])
           \<and> exec_all (order_updates pairs) d =
               Some (d\<lparr>list_tbl := map (reordered pairs) (list_tbl d)\<rparr>)"
proof -
  from reorderLists_reached [OF assms] obtain U items i0 n0 rest where
    u: "authenticated u = Some U" and b: "payload = Given items"
    and p: "those (map parse_item items) = Some ((i0, n0) # rest)"
    by (metis surj_pair)
  let ?ps = "(i0, n0) # rest"
  from assms have "status (fst (reorderLists u (Given items) d)) = 200"
    by (simp add: b)
  then have all: "\<forall>p\<in>set ?ps. list_findUnique (fst p) d \<noteq> None \<and> column_value (snd p) \<noteq> None"
    and r: "reorderLists u (Given items) d =
              (Response 200 (Message ''Lists reordered successfully''),
               [Transaction (order_updates ?ps)])"
    unfolding reorderLists_decision [OF u p]
    by (auto split: option.splits if_splits)
  from all have "exec_all (order_updates ?ps) d =
                   Some (d\<lparr>list_tbl := map (reordered ?ps) (list_tbl d)\<rparr>)"
    unfolding exec_all_order_updates all_found_iff by simp
  with b p r show ?thesis by simp
qed

text \<open>
  Claim C9. A \<^verbatim>\<open>reorderLists\<close> call answered 200 leaves the board, member and card
  tables as they were and keeps every list row in its place with its id, title and
  board; a list row whose id is not named in the payload is unchanged altogether, so
  only the order of the named rows can differ.
\<close>

theorem C9_reorder_frame:
  assumes "status (fst (reorderLists u payload d)) = 200"
  shows "\<exists>items pairs. payload = Given items \<and> those (map parse_item items) = Some pairs
           \<and> board_tbl (after (reorderLists u payload d) d) = board_tbl d
           \<and> member_tbl (after (reorderLists u payload d) d) = member_tbl d
           \<and> card_tbl (after (reorderLists u payload d) d) = card_tbl d
           \<and> list_tbl (after (reorderLists u payload d) d) = map (reordered pairs) (list_tbl d)
           \<and> length (list_tbl (after (reorderLists u payload d) d)) = length (list_tbl d)
           \<and> (\<forall>k<length (list_tbl d).
                 l_id (list_tbl (after (reorderLists u payload d) d) ! k) = l_id (list_tbl d ! k)
               \<and> l_title (list_tbl (after (reorderLists u payload d) d) ! k) = l_title (list_tbl d ! k)
               \<and> l_boardId (list_tbl (after (reorderLists u payload d) d) ! k) = l_boardId (list_tbl d ! k)
               \<and> (l_id (list_tbl d ! k) \<notin> fst ` set pairs \<longrightarrow>
                    list_tbl (after (reorderLists u payload d) d) ! k = list_tbl d ! k))"
proof -
  from reorderLists_ok [OF assms] obtain items pairs where
    b: "payload = Given items" and p: "those (map parse_item items) = Some pairs"
    and r: "reorderLists u payload d =
              (Response 200 (Message ''Lists reordered successfully''),
               [Transaction (order_updates pairs)])"
    and e: "exec_all (order_updates pairs) d =
              Some (d\<lparr>list_tbl := map (reordered pairs) (list_tbl d)\<rparr>)"
    by blast
  have a: "after (reorderLists u payload d) d = d\<lparr>list_tbl := map (reordered pairs) (list_tbl d)\<rparr>"
    unfolding r by (rule after_transaction [OF e])
  show ?thesis
    using b p a by (auto simp: reordered_unnamed)
qed

theorem C9_reorder_frame_witness:
  "status (fst (reorderLists (Some ''u2'') (Given [entry ''l2'' 0, entry ''l1'' 1]) store0)) = 200
   \<and> board_tbl (after (reorderLists (Some ''u2'') (Given [entry ''l2'' 0, entry ''l1'' 1]) store0)
        store0) = board_tbl store0
   \<and> card_tbl (after (reorderLists (Some ''u2'') (Given [entry ''l2'' 0, entry ''l1'' 1]) store0)
        store0) = card_tbl store0
   \<and> l_title (list_tbl (after (reorderLists (Some ''u2'')
        (Given [entry ''l2'' 0, entry ''l1'' 1]) store0) store0) ! 0) = ''Todo''
   \<and> list_tbl (after (reorderLists (Some ''u2'')
        (Given [entry ''l2'' 0, entry ''l1'' 1]) store0) store0) ! 2 = secret"
proof -
  let ?r = "reorderLists (Some ''u2'') (Given [entry ''l2'' 0, entry ''l1'' 1]) store0"
  have h: "status (fst ?r) = 200"
    by code_simp
  have p: "those (map parse_item [entry ''l2'' 0, entry ''l1'' 1]) = Some [(''l2'', Integral 0), (''l1'', Integral 1)]"
    by code_simp
  have t: "list_tbl store0 = [todo, doing, secret]" "l_id secret = ''l3''" "l_title todo = ''Todo''"
    by (simp_all add: store0_def secret_def todo_def)
  from C9_reorder_frame [OF h] p t show ?thesis
    using h by (auto simp: nth_Cons')
qed

text \<open>
  Claim C4. Once \<^verbatim>\<open>reorderLists\<close> has authorised the request, the batch of order
  updates is all or nothing. The batch fails exactly when one of its updates cannot
  be carried out, because it names a list that does not exist or carries a number
  the order column refuses; then the answer is 500 and the store is the one before
  the request, whichever position the failing update has. Otherwise the answer is 200
  and the store is the result of running every update of the payload in order: each
  list row is the old one with the orders of the payload applied, and when the ids of
  the payload are distinct every named list carries exactly the order given for it.
\<close>

theorem C4_reorder_all_or_nothing:
  assumes "authenticated u = Some U"
    and "those (map parse_item items) = Some ((i0, n0) # rest)"
    and "list_findUnique i0 d = Some l"
    and "include_board (l_boardId l) d = Some (B, ms)"
    and "hasAccess U B ms"
  shows "(exec_all (order_updates ((i0, n0) # rest)) d = None \<longleftrightarrow>
            (\<exists>p\<in>set ((i0, n0) # rest).
               list_findUnique (fst p) d = None \<or> column_value (snd p) = None))
       \<and> ((\<exists>p\<in>set ((i0, n0) # rest).
              list_findUnique (fst p) d = None \<or> column_value (snd p) = None) \<longrightarrow>
            reorderLists u (Given items) d = (server_error, [])
          \<and> after (reorderLists u (Given items) d) d = d)
       \<and> ((\<forall>p\<in>set ((i0, n0) # rest).
              list_findUnique (fst p) d \<noteq> None \<and> column_value (snd p) \<noteq> None) \<longrightarrow>
            status (fst (reorderLists u (Given items) d)) = 200
          \<and> exec_all (order_updates ((i0, n0) # rest)) d =
              Some (after (reorderLists u (Given items) d) d)
          \<and> list_tbl (after (reorderLists u (Given items) d) d) =
              map (reordered ((i0, n0) # rest)) (list_tbl d)
          \<and> (distinct (map fst ((i0, n0) # rest)) \<longrightarrow>
               (\<forall>p\<in>set ((i0, n0) # rest).
                  \<forall>l'\<in>set (list_tbl (after (reorderLists u (Given items) d) d)).
                    l_id l' = fst p \<longrightarrow> column_value (snd p) = Some (l_order l'))))"
proof -
  let ?ps = "(i0, n0) # rest"
  let ?all = "\<forall>p\<in>set ?ps. list_findUnique (fst p) d \<noteq> None \<and> column_value (snd p) \<noteq> None"
  have ex: "exec_all (order_updates ?ps) d =
      (if ?all then Some (d\<lparr>list_tbl := map (reordered ?ps) (list_tbl d)\<rparr>) else None)"
    unfolding exec_all_order_updates all_found_iff ..
  have dec: "reorderLists u (Given items) d =
      (if ?all
       then (Response 200 (Message ''Lists reordered successfully''),
             [Transaction (order_updates ?ps)])
       else (server_error, []))"
    using assms by (simp add: reorderLists_decision [OF assms(1,2)])
  show ?thesis
  proof (cases ?all)
    case False
    then show ?thesis
      unfolding dec ex by auto
  next
    case True
    have a: "after (reorderLists u (Given items) d) d =
               d\<lparr>list_tbl := map (reordered ?ps) (list_tbl d)\<rparr>"
      unfolding dec using True ex by (simp add: after_transaction)
    have named: "\<forall>p\<in>set ?ps. \<forall>l'\<in>set (map (reordered ?ps) (list_tbl d)).
                   l_id l' = fst p \<longrightarrow> column_value (snd p) = Some (l_order l')"
      if dist: "distinct (map fst ?ps)"
    proof (intro ballI impI)
      fix p l' assume p: "p \<in> set ?ps" and l': "l' \<in> set (map (reordered ?ps) (list_tbl d))"
        and eq: "l_id l' = fst p"
      from l' obtain l0 where l0: "l' = reordered ?ps l0" by auto
      from True p obtain k where k: "column_value (snd p) = Some k" by auto
      from True have vals: "\<forall>p\<in>set ?ps. column_value (snd p) \<noteq> None" by blast
      from p have "(fst p, snd p) \<in> set ?ps" by simp
      from reordered_named [OF dist this k vals, of l0] eq l0
      show "column_value (snd p) = Some (l_order l')"
        by (simp add: k)
    qed
    have nofail: "\<not> (\<exists>p\<in>set ?ps. list_findUnique (fst p) d = None \<or> column_value (snd p) = None)"
      using True by blast
    have ok: "status (fst (reorderLists u (Given items) d)) = 200"
      unfolding dec using True by simp
    have run: "exec_all (order_updates ?ps) d = Some (after (reorderLists u (Given items) d) d)"
      unfolding a ex using True by simp
    have tbl: "list_tbl (after (reorderLists u (Given items) d) d) =
                 map (reordered ?ps) (list_tbl d)"
      unfolding a by simp
    have c1: "exec_all (order_updates ?ps) d = None \<longleftrightarrow>
                (\<exists>p\<in>set ?ps. list_findUnique (fst p) d = None \<or> column_value (snd p) = None)"
      using nofail run by simp
    have named': "\<forall>p\<in>set ?ps.
                    \<forall>l'\<in>set (list_tbl (after (reorderLists u (Given items) d) d)).
                      l_id l' = fst p \<longrightarrow> column_value (snd p) = Some (l_order l')"
      if "distinct (map fst ?ps)"
      unfolding tbl by (rule named [OF that])
    from c1 nofail ok run tbl named' show ?thesis
      by blast
  qed
qed

theorem C4_reorder_all_or_nothing_witness:
  "authenticated (Some ''u2'') = Some ''u2''
   \<and> list_findUnique ''l1'' store0 = Some todo
   \<and> include_board (l_boardId todo) store0 = Some (board1, members_of ''b1'' store0)
   \<and> hasAccess ''u2'' board1 (members_of ''b1'' store0)
   \<and> those (map parse_item [entry ''l1'' 5, entry ''ghost'' 1]) =
       Some [(''l1'', Integral 5), (''ghost'', Integral 1)]
   \<and> list_findUnique ''ghost'' store0 = None
   \<and> reorderLists (Some ''u2'') (Given [entry ''l1'' 5, entry ''ghost'' 1]) store0 =
       (server_error, [])
   \<and> after (reorderLists (Some ''u2'') (Given [entry ''l1'' 5, entry ''ghost'' 1]) store0) store0 =
       store0
   \<and> those (map parse_item [entry ''l1'' 5, too_big]) =
       Some [(''l1'', Integral 5), (''l2'', Integral 2147483648)]
   \<and> list_findUnique ''l2'' store0 = Some doing
   \<and> column_value (Integral 2147483648) = None
   \<and> reorderLists (Some ''u2'') (Given [entry ''l1'' 5, too_big]) store0 = (server_error, [])
   \<and> after (reorderLists (Some ''u2'') (Given [entry ''l1'' 5, too_big]) store0) store0 = store0
   \<and> those (map parse_item [entry ''l1'' 1, entry ''l2'' 0]) =
       Some [(''l1'', Integral 1), (''l2'', Integral 0)]
   \<and> status (fst (reorderLists (Some ''u2'') (Given [entry ''l1'' 1, entry ''l2'' 0]) store0)) = 200
   \<and> list_tbl (after (reorderLists (Some ''u2'') (Given [entry ''l1'' 1, entry ''l2'' 0]) store0)
        store0) = [todo\<lparr>l_order := 1\<rparr>, doing\<lparr>l_order := 0\<rparr>, secret]"
proof -
  have h1: "authenticated (Some ''u2'') = Some ''u2''"
    by code_simp
  have h3: "list_findUnique ''l1'' store0 = Some todo"
    by code_simp
  have h4: "include_board (l_boardId todo) store0 = Some (board1, members_of ''b1'' store0)"
    by code_simp
  have h5: "hasAccess ''u2'' board1 (members_of ''b1'' store0)"
    by code_simp
  have h2: "those (map parse_item [entry ''l1'' 5, entry ''ghost'' 1]) =
              Some ((''l1'', Integral 5) # [(''ghost'', Integral 1)])"
    by code_simp
  have g: "list_findUnique ''ghost'' store0 = None"
    by code_simp
  have j2: "those (map parse_item [entry ''l1'' 5, too_big]) =
              Some ((''l1'', Integral 5) # [(''l2'', Integral 2147483648)])"
    by code_simp
  have j3: "column_value (Integral 2147483648) = None"
    by code_simp
  have k2: "those (map parse_item [entry ''l1'' 1, entry ''l2'' 0]) =
              Some ((''l1'', Integral 1) # [(''l2'', Integral 0)])"
    by code_simp
  have k3: "list_findUnique ''l2'' store0 = Some doing"
    by code_simp
  have v: "column_value (Integral 1) = Some 1" "column_value (Integral 0) = Some 0"
    by code_simp+
  have m: "map (reordered ((''l1'', Integral 1) # [(''l2'', Integral 0)])) (list_tbl store0) =
             [todo\<lparr>l_order := 1\<rparr>, doing\<lparr>l_order := 0\<rparr>, secret]"
    by code_simp
  from C4_reorder_all_or_nothing [OF h1 h2 h3 h4 h5] g
  have a: "reorderLists (Some ''u2'') (Given [entry ''l1'' 5, entry ''ghost'' 1]) store0 =
             (server_error, [])
         \<and> after (reorderLists (Some ''u2'') (Given [entry ''l1'' 5, entry ''ghost'' 1]) store0)
             store0 = store0"
    by simp
  from C4_reorder_all_or_nothing [OF h1 j2 h3 h4 h5] j3
  have c: "reorderLists (Some ''u2'') (Given [entry ''l1'' 5, too_big]) store0 = (server_error, [])
         \<and> after (reorderLists (Some ''u2'') (Given [entry ''l1'' 5, too_big]) store0) store0 =
             store0"
    by simp
  from C4_reorder_all_or_nothing [OF h1 k2 h3 h4 h5] h3 k3 v
  have b: "status (fst (reorderLists (Some ''u2'') (Given [entry ''l1'' 1, entry ''l2'' 0]) store0))
             = 200
         \<and> list_tbl (after (reorderLists (Some ''u2'') (Given [entry ''l1'' 1, entry ''l2'' 0])
             store0) store0) = [todo\<lparr>l_order := 1\<rparr>, doing\<lparr>l_order := 0\<rparr>, secret]"
    unfolding m [symmetric] by simp
  from a b c h1 h2 h3 h4 h5 g j2 j3 k2 k3 show ?thesis by simp
qed

text \<open>
  Claim C3 does not hold of \<^verbatim>\<open>reorderLists\<close>: only the first entry of the payload is
  looked up and authorised. A member of board \<open>b1\<close> who has no access to board \<open>b2\<close>
  sends the lists \<open>l1\<close> (of \<open>b1\<close>) and \<open>l3\<close> (of \<open>b2\<close>): the answer is 200 and the
  order of \<open>l3\<close> is rewritten, where the claim asks for 403. The same member sends
  \<open>l1\<close> and an id that names no list: the answer is 500, where the claim asks for 404.
\<close>

theorem C3_reorder_unchecked_ids:
  "hasAccess ''u2'' board1 (members_of ''b1'' store0)
   \<and> include_list_board ''l3'' store0 = Some (board2, members_of ''b2'' store0)
   \<and> \<not> hasAccess ''u2'' board2 (members_of ''b2'' store0)
   \<and> reorderLists (Some ''u2'') (Given [entry ''l1'' 5, entry ''l3'' 9]) store0 =
       (Response 200 (Message ''Lists reordered successfully''),
        [Transaction [ListUpdate ''l1'' None (Some (Integral 5)),
                      ListUpdate ''l3'' None (Some (Integral 9))]])
   \<and> list_findUnique ''l3'' store0 = Some secret
   \<and> list_findUnique ''l3''
        (after (reorderLists (Some ''u2'') (Given [entry ''l1'' 5, entry ''l3'' 9]) store0) store0) =
       Some (secret\<lparr>l_order := 9\<rparr>)
   \<and> list_findUnique ''ghost'' store0 = None
   \<and> reorderLists (Some ''u2'') (Given [entry ''l1'' 5, entry ''ghost'' 1]) store0 =
       (Response 500 (Message ''Server error''), [])"
  by code_simp

subsection \<open>Updating and deleting a board\<close>

lemma updateBoard_decision:
  assumes "authenticated u = Some U" and "board_findUnique i d = Some B"
  shows "updateBoard u i t d =
     (case valid_title t of
        None \<Rightarrow> (Response 400 (Message ''Board title is required''), [])
      | Some s \<Rightarrow>
          if b_ownerId B \<noteq> U
          then (Response 403 (Message
                 ''Access denied. Only the board owner can update the board.''), [])
          else (Response 200 (WithBoard ''Board updated successfully'' (B\<lparr>b_title := trim s\<rparr>)),
                [Single (BoardUpdate i (trim s))]))"
  using assms by (simp add: updateBoard_def send_def split: option.splits)

lemma deleteBoard_decision:
  assumes "authenticated u = Some U" and "board_findUnique i d = Some B"
  shows "deleteBoard u i d =
     (if b_ownerId B \<noteq> U
      then (Response 403 (Message
             ''Access denied. Only the board owner can delete the board.''), [])
      else (Response 200 (WithDeleted ''Board deleted successfully'' i (b_title B)),
            [Single (BoardDelete i)]))"
  using assms by (simp add: deleteBoard_def send_def split: option.splits)



text \<open>
  Claim C2, as the code has it. For an authenticated user and an existing board,
  \<^verbatim>\<open>updateBoard\<close> and \<^verbatim>\<open>deleteBoard\<close> answer 200 only for the owner. Every other
  user, members of the board included, is answered 403 by \<^verbatim>\<open>deleteBoard\<close>, and by
  \<^verbatim>\<open>updateBoard\<close> when the title passes the title check; a title that is missing or
  blank is answered 400, before the board is looked up. In all these cases nothing is
  written, so the board is unchanged.
\<close>

theorem C2_owner_only:
  assumes "authenticated u = Some U" and "board_findUnique i d = Some B"
  shows "(status (fst (updateBoard u i t d)) = 200 \<longrightarrow> U = b_ownerId B)
       \<and> (status (fst (deleteBoard u i d)) = 200 \<longrightarrow> U = b_ownerId B)
       \<and> (U \<noteq> b_ownerId B \<longrightarrow>
            status (fst (deleteBoard u i d)) = 403
          \<and> (valid_title t \<noteq> None \<longrightarrow> status (fst (updateBoard u i t d)) = 403)
          \<and> (valid_title t = None \<longrightarrow> status (fst (updateBoard u i t d)) = 400)
          \<and> snd (updateBoard u i t d) = [] \<and> after (updateBoard u i t d) d = d
          \<and> snd (deleteBoard u i d) = [] \<and> after (deleteBoard u i d) d = d)"
proof (cases "U = b_ownerId B")
  case True
  then show ?thesis
    unfolding updateBoard_decision [OF assms] deleteBoard_decision [OF assms]
    by (cases "valid_title t") simp_all
next
  case False
  then have ne: "b_ownerId B \<noteq> U" by blast
  show ?thesis
    unfolding updateBoard_decision [OF assms] deleteBoard_decision [OF assms]
    using ne by (cases "valid_title t") simp_all
qed

theorem C2_owner_only_witness:
  "authenticated (Some ''u2'') = Some ''u2'' \<and> board_findUnique ''b1'' store0 = Some board1
   \<and> ''u2'' \<noteq> b_ownerId board1 \<and> valid_title (Given ''Sprint 2'') \<noteq> None
   \<and> hasAccess ''u2'' board1 (members_of ''b1'' store0)
   \<and> status (fst (updateBoard (Some ''u2'') ''b1'' (Given ''Sprint 2'') store0)) = 403
   \<and> status (fst (deleteBoard (Some ''u2'') ''b1'' store0)) = 403
   \<and> after (updateBoard (Some ''u2'') ''b1'' (Given ''Sprint 2'') store0) store0 = store0
   \<and> after (deleteBoard (Some ''u2'') ''b1'' store0) store0 = store0
   \<and> valid_title (Given ''  '') = None
   \<and> status (fst (updateBoard (Some ''u2'') ''b1'' (Given ''  '') store0)) = 400
   \<and> after (updateBoard (Some ''u2'') ''b1'' (Given ''  '') store0) store0 = store0
   \<and> status (fst (updateBoard (Some ''u1'') ''b1'' (Given ''Sprint 2'') store0)) = 200
   \<and> authenticated (Some ''u1'') = Some ''u1'' \<and> ''u1'' = b_ownerId board1"
proof -
  have h1: "authenticated (Some ''u2'') = Some ''u2''" by code_simp
  have h2: "board_findUnique ''b1'' store0 = Some board1" by code_simp
  have h3: "''u2'' \<noteq> b_ownerId board1" by code_simp
  have h4: "valid_title (Given ''Sprint 2'') \<noteq> None" by code_simp
  have h5: "hasAccess ''u2'' board1 (members_of ''b1'' store0)" by code_simp
  have h6: "valid_title (Given ''  '') = None" by code_simp
  have k1: "authenticated (Some ''u1'') = Some ''u1''" by code_simp
  have k3: "''u1'' = b_ownerId board1" by code_simp
  have k4: "status (fst (updateBoard (Some ''u1'') ''b1'' (Given ''Sprint 2'') store0)) = 200"
    by code_simp
  from C2_owner_only [OF h1 h2, of "Given ''Sprint 2''"] h3 h4
  have a: "status (fst (updateBoard (Some ''u2'') ''b1'' (Given ''Sprint 2'') store0)) = 403
      \<and> status (fst (deleteBoard (Some ''u2'') ''b1'' store0)) = 403
      \<and> after (updateBoard (Some ''u2'') ''b1'' (Given ''Sprint 2'') store0) store0 = store0
      \<and> after (deleteBoard (Some ''u2'') ''b1'' store0) store0 = store0"
    by blast
  from C2_owner_only [OF h1 h2, of "Given ''  ''"] h3 h6
  have b: "status (fst (updateBoard (Some ''u2'') ''b1'' (Given ''  '') store0)) = 400
      \<and> after (updateBoard (Some ''u2'') ''b1'' (Given ''  '') store0) store0 = store0"
    by blast
  from C2_owner_only [OF k1 h2, of "Given ''Sprint 2''"] k4
  have "''u1'' = b_ownerId board1" by blast
  with a b h1 h2 h3 h4 h5 h6 k1 k4 show ?thesis by blast
qed

text \<open>
  The claim C2 as stated fails: a member of the board who is not its owner and sends
  a blank title, or none, is answered 400 by \<^verbatim>\<open>updateBoard\<close>, not 403.
\<close>

theorem C2_counterexample:
  "board_findUnique ''b1'' store0 = Some board1 \<and> b_ownerId board1 = ''u1''
   \<and> hasAccess ''u2'' board1 (members_of ''b1'' store0)
   \<and> updateBoard (Some ''u2'') ''b1'' (Given ''  '') store0 =
       (Response 400 (Message ''Board title is required''), [])
   \<and> updateBoard (Some ''u2'') ''b1'' Absent store0 =
       (Response 400 (Message ''Board title is required''), [])"
  by code_simp

subsection \<open>Updating a card\<close>

lemma patch_date_Absent [simp]: "patch_date Absent = Some None"
  by (simp add: patch_date_def)

lemma updateData_absent:
  assumes "updateData req = Inr p"
  shows "(cb_title req = Absent \<longrightarrow> p_title p = None)
       \<and> (cb_description req = Absent \<longrightarrow> p_description p = None)
       \<and> (cb_labels req = Absent \<longrightarrow> p_labels p = None)
       \<and> (cb_dueDate req = Absent \<longrightarrow> p_dueDate p = None)
       \<and> p_listId p = None \<and> p_order p = None"
  using assms
  by (auto simp: updateData_def Let_def split: field.splits if_splits option.splits)

lemma updateCard_ok:
  assumes "status (fst (updateCard u i req d)) = 200"
  shows "\<exists>p. updateData req = Inr p
           \<and> snd (updateCard u i req d) = [Single (CardUpdate i p)]
           \<and> after (updateCard u i req d) d =
               d\<lparr>card_tbl := map (\<lambda>c. if c_id c = i then apply_patch p c else c) (card_tbl d)\<rparr>"
proof -
  from assms obtain U c B ms p where
    "authenticated u = Some U" and c: "card_findUnique i d = Some c"
    and "include_list_board (c_listId c) d = Some (B, ms)" and "hasAccess U B ms"
    and p: "updateData req = Inr p"
    and r: "updateCard u i req d =
              send (Single (CardUpdate i p)) d
                (Response 200 (WithCard ''Card updated successfully'' (apply_patch p c)))"
    by (auto simp: updateCard_def updateData_def Let_def
             split: option.splits if_splits sum.splits field.splits)
  from updateData_absent [OF p] have l: "p_listId p = None" "p_order p = None" by simp_all
  from c l have e: "exec (Single (CardUpdate i p)) d =
      Some (d\<lparr>card_tbl := map (\<lambda>c. if c_id c = i then apply_patch p c else c) (card_tbl d)\<rparr>)"
    by simp
  show ?thesis
    unfolding r using p e by (simp add: send_def after_def commit1_def)
qed

lemma map_patched:
  assumes "\<And>c. f (apply_patch p c) = f c"
  shows "map f (map (\<lambda>c. if c_id c = i then apply_patch p c else c) xs) = map f xs"
  using assms by (induction xs) simp_all

lemma apply_no_patch [simp]: "apply_patch no_patch c = c"
  by (simp add: apply_patch_def no_patch_def)

lemma updateData_empty:
  assumes "cb_title req = Absent" "cb_description req = Absent"
    "cb_labels req = Absent" "cb_dueDate req = Absent"
  shows "updateData req = Inr no_patch"
  using assms by (simp add: updateData_def no_patch_def)

text \<open>
  Claim C10. When \<^verbatim>\<open>updateCard\<close> answers 200, each of the columns title, description,
  labels and due date whose field is absent from the request body has the same value
  on every stored card as before, and a request whose body has none of the four
  fields leaves the whole store as it was.
\<close>

theorem C10_partial_update:
  assumes "status (fst (updateCard u i req d)) = 200"
  shows "(cb_title req = Absent \<longrightarrow>
            map c_title (card_tbl (after (updateCard u i req d) d)) = map c_title (card_tbl d))
       \<and> (cb_description req = Absent \<longrightarrow>
            map c_description (card_tbl (after (updateCard u i req d) d)) =
            map c_description (card_tbl d))
       \<and> (cb_labels req = Absent \<longrightarrow>
            map c_labels (card_tbl (after (updateCard u i req d) d)) = map c_labels (card_tbl d))
       \<and> (cb_dueDate req = Absent \<longrightarrow>
            map c_dueDate (card_tbl (after (updateCard u i req d) d)) = map c_dueDate (card_tbl d))
       \<and> (cb_title req = Absent \<and> cb_description req = Absent
            \<and> cb_labels req = Absent \<and> cb_dueDate req = Absent \<longrightarrow>
            after (updateCard u i req d) d = d)"
proof -
  from updateCard_ok [OF assms] obtain p where p: "updateData req = Inr p"
    and a: "after (updateCard u i req d) d =
              d\<lparr>card_tbl := map (\<lambda>c. if c_id c = i then apply_patch p c else c) (card_tbl d)\<rparr>"
    by blast
  note ab = updateData_absent [OF p]
  have t: "map c_title (card_tbl (after (updateCard u i req d) d)) = map c_title (card_tbl d)"
    if "cb_title req = Absent"
    unfolding a using that ab by (simp add: map_patched apply_patch_def)
  have ds: "map c_description (card_tbl (after (updateCard u i req d) d)) =
            map c_description (card_tbl d)"
    if "cb_description req = Absent"
    unfolding a using that ab by (simp add: map_patched apply_patch_def)
  have ls: "map c_labels (card_tbl (after (updateCard u i req d) d)) = map c_labels (card_tbl d)"
    if "cb_labels req = Absent"
    unfolding a using that ab by (simp add: map_patched apply_patch_def)
  have du: "map c_dueDate (card_tbl (after (updateCard u i req d) d)) = map c_dueDate (card_tbl d)"
    if "cb_dueDate req = Absent"
    unfolding a using that ab by (simp add: map_patched apply_patch_def)
  have al: "after (updateCard u i req d) d = d"
    if "cb_title req = Absent \<and> cb_description req = Absent
        \<and> cb_labels req = Absent \<and> cb_dueDate req = Absent"
  proof -
    from that p have "p = no_patch"
      by (simp add: updateData_empty)
    then have "map (\<lambda>c. if c_id c = i then apply_patch p c else c) (card_tbl d) = card_tbl d"
      by (simp add: map_idI)
    then show ?thesis unfolding a by simp
  qed
  from t ds ls du al show ?thesis by blast
qed

theorem C10_partial_update_witness:
  "status (fst (updateCard (Some ''u2'') ''c1'' empty_body store0)) = 200
   \<and> after (updateCard (Some ''u2'') ''c1'' empty_body store0) store0 = store0
   \<and> status (fst (updateCard (Some ''u2'') ''c1''
        (empty_body\<lparr>cb_description := Given ''soon''\<rparr>) store0)) = 200
   \<and> map c_title (card_tbl (after (updateCard (Some ''u2'') ''c1''
        (empty_body\<lparr>cb_description := Given ''soon''\<rparr>) store0) store0)) = [''Fix bug'', ''Buy land'']"
proof -
  have h1: "status (fst (updateCard (Some ''u2'') ''c1'' empty_body store0)) = 200"
    by code_simp
  have e: "cb_title empty_body = Absent \<and> cb_description empty_body = Absent
        \<and> cb_labels empty_body = Absent \<and> cb_dueDate empty_body = Absent"
    by (simp add: empty_body_def)
  have h2: "status (fst (updateCard (Some ''u2'') ''c1''
        (empty_body\<lparr>cb_description := Given ''soon''\<rparr>) store0)) = 200"
    by code_simp
  have e2: "cb_title (empty_body\<lparr>cb_description := Given ''soon''\<rparr>) = Absent"
    by (simp add: empty_body_def)
  have t: "map c_title (card_tbl store0) = [''Fix bug'', ''Buy land'']"
    by code_simp
  from C10_partial_update [OF h1] e
  have "after (updateCard (Some ''u2'') ''c1'' empty_body store0) store0 = store0"
    by blast
  moreover from C10_partial_update [OF h2] e2 t
  have "map c_title (card_tbl (after (updateCard (Some ''u2'') ''c1''
        (empty_body\<lparr>cb_description := Given ''soon''\<rparr>) store0) store0)) = [''Fix bug'', ''Buy land'']"
    by simp
  ultimately show ?thesis using h1 h2 by blast
qed

subsection \<open>Moving a card\<close>

lemma apply_move_patch:
  "column_value v = Some k \<Longrightarrow>
   apply_patch (move_patch l v) c = c\<lparr>c_listId := l, c_order := k\<rparr>"
  by (simp add: apply_patch_def move_patch_def no_patch_def)

lemma exec_move:
  assumes "card_findUnique i d = Some c" and "list_findUnique l d = Some tgt"
  shows "exec (Single (CardUpdate i (move_patch l v))) d =
           (case column_value v of
              None \<Rightarrow> None
            | Some k \<Rightarrow>
                Some (d\<lparr>card_tbl :=
                  map (\<lambda>c. if c_id c = i then c\<lparr>c_listId := l, c_order := k\<rparr> else c)
                    (card_tbl d)\<rparr>))"
proof (cases "column_value v")
  case None
  with assms show ?thesis
    by (simp add: move_patch_def no_patch_def)
next
  case (Some k)
  have m: "p_listId (move_patch l v) = Some l" "p_order (move_patch l v) = Some v"
    by (simp_all add: move_patch_def no_patch_def)
  from assms Some show ?thesis
    by (simp add: m apply_move_patch [OF Some])
qed

lemma moveCard_decision:
  assumes "authenticated u = Some U" and "id_and_order lf nf = Some (l, v)"
    and "card_findUnique i d = Some c"
    and "include_list_board (c_listId c) d = Some (B, ms)"
  shows "moveCard u i lf nf d =
     (if \<not> hasAccess U B ms then (not_member, [])
      else
        (case list_findUnique l d of
           None \<Rightarrow> (Response 404 (Message ''Target list not found''), [])
         | Some tgt \<Rightarrow>
             (case include_board (l_boardId tgt) d of
                None \<Rightarrow> (server_error, [])
              | Some (B', ms') \<Rightarrow>
                  if \<not> hasAccess U B' ms'
                  then (Response 403 (Message
                         ''Access denied. You are not a member of the target board.''), [])
                  else
                    (case column_value v of
                       None \<Rightarrow> (server_error, [])
                     | Some k \<Rightarrow>
                         (Response 200 (WithCard ''Card moved successfully''
                            (c\<lparr>c_listId := l, c_order := k\<rparr>)),
                          [Single (CardUpdate i (move_patch l v))])))))"
proof (cases "list_findUnique l d")
  case None
  with assms show ?thesis
    by (simp add: moveCard_def)
next
  case (Some tgt)
  note e = exec_move [OF assms(3) Some, of v]
  from assms Some show ?thesis
    by (simp add: moveCard_def send_def e apply_move_patch split: option.splits
             del: exec.simps)
qed

lemma include_list_board_Some:
  "include_list_board l d = Some (B, ms) \<longleftrightarrow>
     (\<exists>tgt. list_findUnique l d = Some tgt \<and> include_board (l_boardId tgt) d = Some (B, ms))"
  by (simp add: include_list_board_def split: option.splits)

lemma card_find_after_nothing:
  "snd out = [] \<Longrightarrow> card_findUnique i (after out d) = card_findUnique i d"
  by (simp add: after_def)

text \<open>
  Claim C6, as the code has it. For an authenticated, well-formed \<^verbatim>\<open>moveCard\<close> request
  on an existing card, the checks run in this order: access to the card's current
  board, existence of the target list, access to the target list's board. The move
  answers 200 only when the user has access to both boards. Without access to the
  current board the answer is 403, whether the target list exists or not; with it, a
  target list that does not exist is answered 404 and a target board the user cannot
  access is answered 403. Whenever the answer is not 200 nothing is written and the
  card is found as it was, list and order included.
\<close>

theorem C6_move_checks:
  assumes "authenticated u = Some U" and "id_and_order lf nf = Some (l, v)"
    and "card_findUnique i d = Some c"
    and "include_list_board (c_listId c) d = Some (B, ms)"
  shows "(status (fst (moveCard u i lf nf d)) = 200 \<longrightarrow>
            hasAccess U B ms
          \<and> (\<exists>B' ms'. include_list_board l d = Some (B', ms') \<and> hasAccess U B' ms'))
       \<and> (\<not> hasAccess U B ms \<longrightarrow> moveCard u i lf nf d = (not_member, []))
       \<and> (hasAccess U B ms \<and> list_findUnique l d = None \<longrightarrow>
            moveCard u i lf nf d = (Response 404 (Message ''Target list not found''), []))
       \<and> (\<forall>B' ms'. hasAccess U B ms \<and> include_list_board l d = Some (B', ms')
              \<and> \<not> hasAccess U B' ms' \<longrightarrow>
            moveCard u i lf nf d =
              (Response 403 (Message
                 ''Access denied. You are not a member of the target board.''), []))
       \<and> (status (fst (moveCard u i lf nf d)) \<noteq> 200 \<longrightarrow>
            snd (moveCard u i lf nf d) = []
          \<and> card_findUnique i (after (moveCard u i lf nf d) d) = Some c)"
proof -
  note dec = moveCard_decision [OF assms]
  have w: "snd (moveCard u i lf nf d) = []" if "status (fst (moveCard u i lf nf d)) \<noteq> 200"
    using that unfolding dec by (auto split: option.splits if_splits)
  have keep: "card_findUnique i (after (moveCard u i lf nf d) d) = Some c"
    if "status (fst (moveCard u i lf nf d)) \<noteq> 200"
    using card_find_after_nothing [OF w [OF that], of i d] assms(3) by simp
  have ok: "hasAccess U B ms
            \<and> (\<exists>B' ms'. include_list_board l d = Some (B', ms') \<and> hasAccess U B' ms')"
    if "status (fst (moveCard u i lf nf d)) = 200"
    using that unfolding dec include_list_board_Some
    by (auto split: option.splits if_splits)
  have src: "moveCard u i lf nf d = (not_member, [])" if "\<not> hasAccess U B ms"
    using that unfolding dec by simp
  have nf: "moveCard u i lf nf d = (Response 404 (Message ''Target list not found''), [])"
    if "hasAccess U B ms \<and> list_findUnique l d = None"
    using that unfolding dec by simp
  have dst: "moveCard u i lf nf d =
               (Response 403 (Message
                  ''Access denied. You are not a member of the target board.''), [])"
    if "hasAccess U B ms \<and> include_list_board l d = Some (B', ms') \<and> \<not> hasAccess U B' ms'"
    for B' ms'
    using that unfolding dec include_list_board_Some by auto
  from ok src nf dst w keep show ?thesis by blast
qed

theorem C6_move_checks_witness:
  "authenticated (Some ''u2'') = Some ''u2''
   \<and> id_and_order (Given ''l3'') (Given (Integral 0)) = Some (''l3'', Integral 0)
   \<and> card_findUnique ''c1'' store0 = Some fix_bug
   \<and> include_list_board (c_listId fix_bug) store0 = Some (board1, members_of ''b1'' store0)
   \<and> hasAccess ''u2'' board1 (members_of ''b1'' store0)
   \<and> include_list_board ''l3'' store0 = Some (board2, members_of ''b2'' store0)
   \<and> \<not> hasAccess ''u2'' board2 (members_of ''b2'' store0)
   \<and> moveCard (Some ''u2'') ''c1'' (Given ''l3'') (Given (Integral 0)) store0 =
       (Response 403 (Message ''Access denied. You are not a member of the target board.''), [])
   \<and> card_findUnique ''c1''
        (after (moveCard (Some ''u2'') ''c1'' (Given ''l3'') (Given (Integral 0)) store0) store0) =
       Some fix_bug
   \<and> status (fst (moveCard (Some ''u2'') ''c1'' (Given ''l2'') (Given (Integral 0)) store0)) = 200
   \<and> (\<exists>B' ms'. include_list_board ''l2'' store0 = Some (B', ms') \<and> hasAccess ''u2'' B' ms')"
proof -
  have h1: "authenticated (Some ''u2'') = Some ''u2''" by code_simp
  have h2: "id_and_order (Given ''l3'') (Given (Integral 0)) = Some (''l3'', Integral 0)"
    by code_simp
  have h3: "card_findUnique ''c1'' store0 = Some fix_bug" by code_simp
  have h4: "include_list_board (c_listId fix_bug) store0 = Some (board1, members_of ''b1'' store0)"
    by code_simp
  have a1: "hasAccess ''u2'' board1 (members_of ''b1'' store0)" by code_simp
  have a2: "include_list_board ''l3'' store0 = Some (board2, members_of ''b2'' store0)"
    by code_simp
  have a3: "\<not> hasAccess ''u2'' board2 (members_of ''b2'' store0)" by code_simp
  have g2: "id_and_order (Given ''l2'') (Given (Integral 0)) = Some (''l2'', Integral 0)"
    by code_simp
  have g5: "status (fst (moveCard (Some ''u2'') ''c1'' (Given ''l2'') (Given (Integral 0)) store0))
              = 200"
    by code_simp
  note T = C6_move_checks [OF h1 h2 h3 h4]
  from T a1 a2 a3
  have r: "moveCard (Some ''u2'') ''c1'' (Given ''l3'') (Given (Integral 0)) store0 =
       (Response 403 (Message ''Access denied. You are not a member of the target board.''), [])"
    by blast
  then have "status (fst (moveCard (Some ''u2'') ''c1'' (Given ''l3'') (Given (Integral 0)) store0))
               \<noteq> 200"
    by simp
  with T have k: "card_findUnique ''c1''
        (after (moveCard (Some ''u2'') ''c1'' (Given ''l3'') (Given (Integral 0)) store0) store0) =
        Some fix_bug"
    by blast
  from C6_move_checks [OF h1 g2 h3 h4] g5
  have s: "\<exists>B' ms'. include_list_board ''l2'' store0 = Some (B', ms') \<and> hasAccess ''u2'' B' ms'"
    by blast
  from r k s g5 h1 h2 h3 h4 a1 a2 a3 show ?thesis by blast
qed

text \<open>
  The claim C6 as stated fails: a user without access to the card's board who names a
  target list that does not exist is answered 403, not 404.
\<close>

theorem C6_counterexample:
  "card_findUnique ''c1'' store0 = Some fix_bug
   \<and> list_findUnique ''ghost'' store0 = None
   \<and> moveCard (Some ''u3'') ''c1'' (Given ''ghost'') (Given (Integral 0)) store0 =
       (Response 403 (Message ''Access denied. You are not a member of this board.''), [])"
  by code_simp



lemma find_Some_mem: "find P xs = Some x \<Longrightarrow> x \<in> set xs \<and> P x"
  by (auto simp: find_Some_iff)












subsection \<open>Missing targets and the access check\<close>

lemma those_Cons_Some:
  "those (x # xs) = Some ys \<longleftrightarrow> (\<exists>y ys'. x = Some y \<and> those xs = Some ys' \<and> ys = y # ys')"
  by (auto split: option.splits)

lemma status_not_found_reply [simp]: "status (not_found_reply r) = 404"
  by (cases r) simp_all

lemma reorder_first:
  assumes "passes_validation (ReorderLists ls)" and "primary_target (ReorderLists ls) = Some t"
  shows "\<exists>items i n rest. ls = Given items \<and> t = ListId i
           \<and> those (map parse_item items) = Some ((i, n) # rest)"
  using assms
  by (auto simp: those_Cons_Some split: field.splits list.splits option.splits)

lemma handle_not_found:
  assumes "authenticated u = Some U" and "passes_validation r"
    and "primary_target r = Some t" and "\<not> resolves t d"
  shows "handle u r d = (not_found_reply r, [])"
proof (cases r)
  case (ReorderLists ls)
  from reorder_first [OF assms(2,3) [unfolded ReorderLists]] obtain items i n rest where
    "ls = Given items" "t = ListId i" "those (map parse_item items) = Some ((i, n) # rest)"
    by blast
  with assms(1,4) ReorderLists show ?thesis
    by (simp add: reorderLists_decision)
qed (use assms in \<open>auto simp: getBoardById_def updateBoard_def deleteBoard_def createList_def
      updateList_def deleteList_def createCard_def getCard_def updateCard_def deleteCard_def
      moveCard_def include_board_def split: option.splits\<close>)


lemma resolves_member_tbl [simp]: "resolves t (d\<lparr>member_tbl := ms'\<rparr>) = resolves t d"
  by (cases t) (simp_all add: board_findUnique_def list_findUnique_def card_findUnique_def)

text \<open>
  Claim C8, as the code has it. For an authenticated request that passes the payload
  checks, when the target the request names first (the route parameter, or the first
  entry of a reorder payload) does not exist, the answer is 404 and nothing is
  written; the answer is the same for every user and for every content of the member
  table, so no access decision enters it. The target list of \<^verbatim>\<open>moveCard\<close> is looked
  up only after the access check on the card's current board: when it does not exist
  the answer is 404 for a user with access to that board and 403 for a user without.
\<close>

theorem C8_not_found_before_access:
  "(authenticated u = Some U \<and> passes_validation r \<and> primary_target r = Some t
      \<and> \<not> resolves t d \<longrightarrow>
      handle u r d = (not_found_reply r, []) \<and> status (fst (handle u r d)) = 404
    \<and> (\<forall>u' U' ms'. authenticated u' = Some U' \<longrightarrow>
          handle u' r (d\<lparr>member_tbl := ms'\<rparr>) = handle u r d))
   \<and> (authenticated u = Some U \<and> id_and_order lf nf = Some (l, n)
      \<and> card_findUnique i d = Some c \<and> include_list_board (c_listId c) d = Some (B, ms)
      \<and> list_findUnique l d = None \<longrightarrow>
      moveCard u i lf nf d =
        (if hasAccess U B ms then (Response 404 (Message ''Target list not found''), [])
         else (not_member, [])))"
proof (intro conjI impI)
  assume a: "authenticated u = Some U \<and> passes_validation r \<and> primary_target r = Some t
      \<and> \<not> resolves t d"
  then have h: "handle u r d = (not_found_reply r, [])"
    by (simp add: handle_not_found)
  then show "handle u r d = (not_found_reply r, [])" .
  from h show "status (fst (handle u r d)) = 404" by simp
  show "\<forall>u' U' ms'. authenticated u' = Some U' \<longrightarrow>
          handle u' r (d\<lparr>member_tbl := ms'\<rparr>) = handle u r d"
  proof (intro allI impI)
    fix u' U' ms' assume "authenticated u' = Some U'"
    with a have "handle u' r (d\<lparr>member_tbl := ms'\<rparr>) = (not_found_reply r, [])"
      by (intro handle_not_found [where t = t]) simp_all
    with h show "handle u' r (d\<lparr>member_tbl := ms'\<rparr>) = handle u r d" by simp
  qed
next
  assume "authenticated u = Some U \<and> id_and_order lf nf = Some (l, n)
      \<and> card_findUnique i d = Some c \<and> include_list_board (c_listId c) d = Some (B, ms)
      \<and> list_findUnique l d = None"
  then show "moveCard u i lf nf d =
        (if hasAccess U B ms then (Response 404 (Message ''Target list not found''), [])
         else (not_member, []))"
    by (simp add: moveCard_decision)
qed

theorem C8_not_found_before_access_witness:
  "authenticated (Some ''u3'') = Some ''u3'' \<and> passes_validation (GetCard ''nope'')
   \<and> primary_target (GetCard ''nope'') = Some (CardId ''nope'')
   \<and> \<not> resolves (CardId ''nope'') store0
   \<and> handle (Some ''u3'') (GetCard ''nope'') store0 =
       (Response 404 (Message ''Card not found''), [])
   \<and> authenticated (Some ''u2'') = Some ''u2''
   \<and> id_and_order (Given ''ghost'') (Given (Integral 0)) = Some (''ghost'', Integral 0)
   \<and> card_findUnique ''c1'' store0 = Some fix_bug
   \<and> include_list_board (c_listId fix_bug) store0 = Some (board1, members_of ''b1'' store0)
   \<and> list_findUnique ''ghost'' store0 = None
   \<and> hasAccess ''u2'' board1 (members_of ''b1'' store0)
   \<and> moveCard (Some ''u2'') ''c1'' (Given ''ghost'') (Given (Integral 0)) store0 =
       (Response 404 (Message ''Target list not found''), [])"
proof -
  have h1: "authenticated (Some ''u3'') = Some ''u3''" by code_simp
  have h2: "passes_validation (GetCard ''nope'')" by simp
  have h3: "primary_target (GetCard ''nope'') = Some (CardId ''nope'')" by simp
  have h4: "\<not> resolves (CardId ''nope'') store0" by code_simp
  have k1: "authenticated (Some ''u2'') = Some ''u2''" by code_simp
  have k2: "id_and_order (Given ''ghost'') (Given (Integral 0)) = Some (''ghost'', Integral 0)" by code_simp
  have k3: "card_findUnique ''c1'' store0 = Some fix_bug" by code_simp
  have k4: "include_list_board (c_listId fix_bug) store0 =
              Some (board1, members_of ''b1'' store0)" by code_simp
  have k5: "list_findUnique ''ghost'' store0 = None" by code_simp
  have k6: "hasAccess ''u2'' board1 (members_of ''b1'' store0)" by code_simp
  from C8_not_found_before_access [of "Some ''u3''" "''u3''" "GetCard ''nope''"
         "CardId ''nope''" store0] h1 h2 h3 h4
  have a: "handle (Some ''u3'') (GetCard ''nope'') store0 =
             (Response 404 (Message ''Card not found''), [])"
    by simp
  from C8_not_found_before_access [of "Some ''u2''" "''u2''" _ _ store0 "Given ''ghost''"
         "Given (Integral 0)" "''ghost''" "Integral 0" "''c1''" fix_bug board1 "members_of ''b1'' store0"]
       k1 k2 k3 k4 k5 k6
  have b: "moveCard (Some ''u2'') ''c1'' (Given ''ghost'') (Given (Integral 0)) store0 =
             (Response 404 (Message ''Target list not found''), [])"
    by simp
  from a b h1 h2 h3 h4 k1 k2 k3 k4 k5 k6 show ?thesis by blast
qed

text \<open>
  The claim C8 as stated fails: a user without access to the card's board who names a
  target list that does not exist is answered 403 by \<^verbatim>\<open>moveCard\<close>, and a reorder
  payload whose second id does not exist is answered 500.
\<close>

theorem C8_counterexample:
  "list_findUnique ''ghost'' store0 = None
   \<and> \<not> hasAccess ''u3'' board1 (members_of ''b1'' store0)
   \<and> status (fst (handle (Some ''u3'') (MoveCard ''c1'' (Given ''ghost'') (Given (Integral 0))) store0)) = 403
   \<and> status (fst (handle (Some ''u2'')
        (ReorderLists (Given [entry ''l1'' 5, entry ''ghost'' 1])) store0)) = 500"
  by code_simp


lemma send_not_403 [simp]: "status ok \<noteq> 403 \<Longrightarrow> status (fst (send s d ok)) \<noteq> 403"
  by (simp add: send_def split: option.splits)

lemma include_board_Some:
  "include_board i d = Some (B, ms) \<longleftrightarrow> board_findUnique i d = Some B \<and> ms = members_of i d"
  by (auto simp: include_board_def split: option.splits)

lemma board_find_id: "board_findUnique i d = Some B \<Longrightarrow> b_id B = i"
  using find_Some_mem [of "\<lambda>b. b_id b = i" "board_tbl d" B]
  by (simp add: board_findUnique_def)

lemma hasAccess_iff:
  "hasAccess U B ms \<longleftrightarrow> U = b_ownerId B \<or> (\<exists>m\<in>set ms. m_userId m = U)"
  by (auto simp: hasAccess_def list_ex_iff)

lemma updateData_not_403: "updateData req = Inl r \<Longrightarrow> status r \<noteq> 403"
  by (auto simp: updateData_def Let_def split: field.splits if_splits option.splits)

lemma handle_member_level:
  assumes "authenticated u = Some U" and "passes_validation r"
    and "scope_board r d = Some (B, ms)" and "\<not> owner_only r"
  shows "(\<not> hasAccess U B ms \<longrightarrow> handle u r d = (not_member, []))
       \<and> (status (fst (handle u r d)) = 403 \<longleftrightarrow>
            \<not> hasAccess U B ms
          \<or> (\<exists>B' ms'. destination_board r d = Some (B', ms') \<and> \<not> hasAccess U B' ms'))"
proof (cases r)
  case (GetBoardById i)
  with assms show ?thesis
    by (auto simp: scope_board_def getBoardById_def)
next
  case (CreateList b t newId)
  with assms show ?thesis
    by (auto simp: scope_board_def createList_def Let_def)
next
  case (UpdateList i t)
  with assms show ?thesis
    by (auto simp: scope_board_def updateList_def include_list_board_def split: option.splits)
next
  case (DeleteList i)
  with assms show ?thesis
    by (auto simp: scope_board_def deleteList_def include_list_board_def split: option.splits)
next
  case (ReorderLists ls)
  from assms(2,3) obtain t where t: "primary_target (ReorderLists ls) = Some t"
    by (auto simp: scope_board_def ReorderLists split: option.splits)
  from reorder_first [OF assms(2) [unfolded ReorderLists] t] obtain items i n rest where
    ls: "ls = Given items" and ti: "t = ListId i"
    and p: "those (map parse_item items) = Some ((i, n) # rest)"
    by blast
  from assms(3) t ti have sb: "include_list_board i d = Some (B, ms)"
    by (simp add: scope_board_def ReorderLists)
  from sb assms(1) show ?thesis
    unfolding ReorderLists ls
    by (auto simp: reorderLists_decision [OF assms(1) p] include_list_board_def
             split: option.splits)
next
  case (CreateCard l req newId)
  with assms show ?thesis
    by (auto simp: scope_board_def createCard_def include_list_board_def Let_def
             split: option.splits)
next
  case (GetCard i)
  with assms show ?thesis
    by (auto simp: scope_board_def getCard_def split: option.splits)
next
  case (UpdateCard i req)
  with assms show ?thesis
    by (auto simp: scope_board_def updateCard_def updateData_not_403
             split: option.splits sum.splits)
next
  case (DeleteCard i)
  with assms show ?thesis
    by (auto simp: scope_board_def deleteCard_def split: option.splits)
next
  case (MoveCard i lf nf)
  from assms(2) obtain l n where p: "id_and_order lf nf = Some (l, n)"
    by (auto simp: MoveCard)
  from assms(3) obtain c where c: "card_findUnique i d = Some c"
    and sb: "include_list_board (c_listId c) d = Some (B, ms)"
    by (auto simp: scope_board_def MoveCard split: option.splits)
  show ?thesis
    unfolding MoveCard
    by (auto simp: moveCard_decision [OF assms(1) p c sb] p include_list_board_Some
             split: option.splits)
qed (use assms in simp_all)


lemma owning_board_members:
  assumes "owning_board t d = Some (B, ms)"
  shows "ms = members_of (b_id B) d"
proof -
  have inc: "ms = members_of (b_id B) d" if "include_board i d = Some (B, ms)" for i
    using that board_find_id [of i d B] by (simp add: include_board_Some)
  from assms show ?thesis
    by (cases t) (auto simp: include_list_board_def split: option.splits dest: inc)
qed

lemma handle_owner_only:
  assumes "authenticated u = Some U" and "passes_validation r"
    and "scope_board r d = Some (B, ms)" and "owner_only r"
  shows "(U \<noteq> b_ownerId B \<longrightarrow> status (fst (handle u r d)) = 403 \<and> snd (handle u r d) = [])
       \<and> (status (fst (handle u r d)) = 403 \<longleftrightarrow> U \<noteq> b_ownerId B)"
proof (cases r)
  case (UpdateBoard i t)
  with assms(3) have b: "board_findUnique i d = Some B"
    by (simp add: scope_board_def include_board_Some)
  from assms(2) UpdateBoard obtain s where "valid_title t = Some s" by auto
  then show ?thesis
    unfolding UpdateBoard by (auto simp: updateBoard_decision [OF assms(1) b])
next
  case (DeleteBoard i)
  with assms(3) have b: "board_findUnique i d = Some B"
    by (simp add: scope_board_def include_board_Some)
  show ?thesis
    unfolding DeleteBoard by (auto simp: deleteBoard_decision [OF assms(1) b])
qed (use assms in simp_all)

text \<open>
  Claim C1, as the code has it. Take an authenticated request that passes the payload
  checks and whose target belongs to an existing board, loaded with its member rows.
  The user has access iff they are the owner or one of the member rows of the board
  carries their id. A user without access is answered 403 and nothing is written.
  Every handler but \<^verbatim>\<open>updateBoard\<close> and \<^verbatim>\<open>deleteBoard\<close> answers 403 only then (or,
  for \<^verbatim>\<open>moveCard\<close>, when the user has no access to the board of the target list);
  \<^verbatim>\<open>updateBoard\<close> and \<^verbatim>\<open>deleteBoard\<close> answer 403 to everyone but the owner.
\<close>

theorem C1_access_check:
  assumes "authenticated u = Some U" and "passes_validation r"
    and "scope_board r d = Some (B, ms)"
  shows "ms = members_of (b_id B) d
       \<and> (hasAccess U B ms \<longleftrightarrow> U = b_ownerId B \<or> (\<exists>m\<in>set ms. m_userId m = U))
       \<and> (\<not> hasAccess U B ms \<longrightarrow>
            status (fst (handle u r d)) = 403 \<and> snd (handle u r d) = []
          \<and> after (handle u r d) d = d)
       \<and> (\<not> owner_only r \<longrightarrow>
            (status (fst (handle u r d)) = 403 \<longleftrightarrow>
               \<not> hasAccess U B ms
             \<or> (\<exists>B' ms'. destination_board r d = Some (B', ms') \<and> \<not> hasAccess U B' ms')))
       \<and> (owner_only r \<longrightarrow> (status (fst (handle u r d)) = 403 \<longleftrightarrow> U \<noteq> b_ownerId B))"
proof -
  from assms(3) have m: "ms = members_of (b_id B) d"
    by (auto simp: scope_board_def owning_board_members split: option.splits)
  have denied: "status (fst (handle u r d)) = 403 \<and> snd (handle u r d) = []"
    if "\<not> hasAccess U B ms"
  proof (cases "owner_only r")
    case True
    from that have "U \<noteq> b_ownerId B" by (simp add: hasAccess_iff)
    with handle_owner_only [OF assms True] show ?thesis by blast
  next
    case False
    with handle_member_level [OF assms False] that show ?thesis by simp
  qed
  have unchanged: "after (handle u r d) d = d" if "\<not> hasAccess U B ms"
    using denied [OF that] by (simp add: after_def)
  from m hasAccess_iff [of U B ms] denied unchanged
       handle_member_level [OF assms] handle_owner_only [OF assms]
  show ?thesis by blast
qed

theorem C1_access_check_witness:
  "authenticated (Some ''u3'') = Some ''u3''
   \<and> passes_validation (CreateCard ''l1'' (empty_body\<lparr>cb_title := Given ''Spy''\<rparr>) ''c9'')
   \<and> scope_board (CreateCard ''l1'' (empty_body\<lparr>cb_title := Given ''Spy''\<rparr>) ''c9'') store0 =
       Some (board1, members_of ''b1'' store0)
   \<and> \<not> hasAccess ''u3'' board1 (members_of ''b1'' store0)
   \<and> status (fst (handle (Some ''u3'')
        (CreateCard ''l1'' (empty_body\<lparr>cb_title := Given ''Spy''\<rparr>) ''c9'') store0)) = 403
   \<and> after (handle (Some ''u3'')
        (CreateCard ''l1'' (empty_body\<lparr>cb_title := Given ''Spy''\<rparr>) ''c9'') store0) store0 = store0
   \<and> authenticated (Some ''u2'') = Some ''u2''
   \<and> hasAccess ''u2'' board1 (members_of ''b1'' store0)
   \<and> status (fst (handle (Some ''u2'')
        (CreateCard ''l1'' (empty_body\<lparr>cb_title := Given ''Spy''\<rparr>) ''c9'') store0)) \<noteq> 403"
proof -
  let ?r = "CreateCard ''l1'' (empty_body\<lparr>cb_title := Given ''Spy''\<rparr>) ''c9''"
  have h1: "authenticated (Some ''u3'') = Some ''u3''" by code_simp
  have h2: "passes_validation ?r" by code_simp
  have h3: "scope_board ?r store0 = Some (board1, members_of ''b1'' store0)" by code_simp
  have h4: "\<not> hasAccess ''u3'' board1 (members_of ''b1'' store0)" by code_simp
  have k1: "authenticated (Some ''u2'') = Some ''u2''" by code_simp
  have k4: "hasAccess ''u2'' board1 (members_of ''b1'' store0)" by code_simp
  have o: "\<not> owner_only ?r" "destination_board ?r store0 = None" by simp_all
  from C1_access_check [OF h1 h2 h3] h4
  have a: "status (fst (handle (Some ''u3'') ?r store0)) = 403
         \<and> after (handle (Some ''u3'') ?r store0) store0 = store0"
    by blast
  from C1_access_check [OF k1 h2 h3] k4 o
  have b: "status (fst (handle (Some ''u2'') ?r store0)) \<noteq> 403"
    by simp
  from a b h1 h2 h3 h4 k1 k4 show ?thesis by blast
qed

text \<open>
  The claim C1 as stated fails for the two owner-only handlers: a member of the board
  has access in the sense of the claim and is answered 403 by \<^verbatim>\<open>updateBoard\<close> and
  \<^verbatim>\<open>deleteBoard\<close>.
\<close>

theorem C1_counterexample:
  "include_board ''b1'' store0 = Some (board1, members_of ''b1'' store0)
   \<and> hasAccess ''u2'' board1 (members_of ''b1'' store0)
   \<and> handle (Some ''u2'') (UpdateBoard ''b1'' (Given ''Sprint 2'')) store0 =
       (Response 403 (Message ''Access denied. Only the board owner can update the board.''), [])
   \<and> handle (Some ''u2'') (DeleteBoard ''b1'') store0 =
       (Response 403 (Message ''Access denied. Only the board owner can delete the board.''), [])"
  by code_simp

end
